theory Spec2Isabelle
  imports Main "HOL-Library.Monad_Syntax"
begin

section \<open>Dense vectors and matrices\<close>

text \<open>
  The header \<^verbatim>\<open>system_pinocchio_mapping.h\<close> only moves scalars between dynamically sized
  Eigen vectors and matrices, so the scalar type stays a parameter: all that is used of it
  is its zero. A vector is the list of its coefficients. A matrix is stored by columns, as
  Eigen does by default, together with its row count, so that the shapes \<open>(r, 0)\<close> and
  \<open>(0, c)\<close> stay distinct.

  Every Eigen block accessor checks its range and every assignment to a block checks that
  both sides have the same shape. A failed check aborts the call in a checked build and is
  undefined behaviour in an unchecked one; both are the result \<open>None\<close> here.
\<close>

type_synonym 'a VecX = "'a list"

record 'a MatX =
  rows :: nat
  columns :: "'a list list"

definition cols :: "'a MatX \<Rightarrow> nat" where
  "cols M = length (columns M)"

text \<open>
  Storage that is allocated without an initialiser (\<^verbatim>\<open>VecXs v(n)\<close>, \<^verbatim>\<open>MatXs M(r, c)\<close>) has
  indeterminate contents. The parameter \<open>uninit\<close> stands for them: coefficient \<open>(i, j)\<close>
  of a fresh matrix is \<open>uninit i j\<close>, and a fresh vector is a single column.
\<close>

definition VecXs :: "(nat \<Rightarrow> nat \<Rightarrow> 'a) \<Rightarrow> nat \<Rightarrow> 'a VecX" where
  "VecXs uninit n = map (\<lambda>i. uninit i 0) [0..<n]"

definition MatXs :: "(nat \<Rightarrow> nat \<Rightarrow> 'a) \<Rightarrow> nat \<Rightarrow> nat \<Rightarrow> 'a MatX" where
  "MatXs uninit r c = \<lparr>rows = r, columns = map (\<lambda>j. map (\<lambda>i. uninit i j) [0..<r]) [0..<c]\<rparr>"

definition VecXs_Zero :: "nat \<Rightarrow> ('a::zero) VecX" where
  "VecXs_Zero n = replicate n 0"

definition MatXs_Zero :: "nat \<Rightarrow> nat \<Rightarrow> ('a::zero) MatX" where
  "MatXs_Zero r c = \<lparr>rows = r, columns = replicate c (replicate r 0)\<rparr>"

subsection \<open>Reading blocks\<close>

definition head :: "'a VecX \<Rightarrow> nat \<Rightarrow> 'a VecX option" where
  "head v n = (if n \<le> length v then Some (take n v) else None)"

definition segment :: "'a VecX \<Rightarrow> nat \<Rightarrow> nat \<Rightarrow> 'a VecX option" where
  "segment v start n = (if start + n \<le> length v then Some (take n (drop start v)) else None)"

definition tail :: "'a VecX \<Rightarrow> nat \<Rightarrow> 'a VecX option" where
  "tail v n = (if n \<le> length v then Some (drop (length v - n) v) else None)"

definition middleCols :: "'a MatX \<Rightarrow> nat \<Rightarrow> nat \<Rightarrow> 'a MatX option" where
  "middleCols M start n =
     (if start + n \<le> cols M
      then Some \<lparr>rows = rows M, columns = take n (drop start (columns M))\<rparr>
      else None)"

definition leftCols :: "'a MatX \<Rightarrow> nat \<Rightarrow> 'a MatX option" where
  "leftCols M n = middleCols M 0 n"

subsection \<open>Assigning to blocks\<close>

text \<open>
  \<^verbatim>\<open>dst.segment(start, n) = src\<close> and \<^verbatim>\<open>dst.middleCols(start, n) = src\<close>: the block must lie
  inside \<open>dst\<close> and \<open>src\<close> must have the block's shape; the coefficients outside the block
  keep their values.
\<close>

definition set_segment :: "'a VecX \<Rightarrow> nat \<Rightarrow> nat \<Rightarrow> 'a VecX \<Rightarrow> 'a VecX option" where
  "set_segment dst start n src =
     (if start + n \<le> length dst \<and> length src = n
      then Some (take start dst @ src @ drop (start + n) dst)
      else None)"

definition set_head :: "'a VecX \<Rightarrow> nat \<Rightarrow> 'a VecX \<Rightarrow> 'a VecX option" where
  "set_head dst n src = set_segment dst 0 n src"

definition set_middleCols :: "'a MatX \<Rightarrow> nat \<Rightarrow> nat \<Rightarrow> 'a MatX \<Rightarrow> 'a MatX option" where
  "set_middleCols dst start n src =
     (if start + n \<le> cols dst \<and> rows src = rows dst \<and> cols src = n
      then Some \<lparr>rows = rows dst,
                 columns = take start (columns dst) @ columns src @ drop (start + n) (columns dst)\<rparr>
      else None)"

definition set_leftCols :: "'a MatX \<Rightarrow> nat \<Rightarrow> 'a MatX \<Rightarrow> 'a MatX option" where
  "set_leftCols dst n src = set_middleCols dst 0 n src"

text \<open>
  The comma initialiser \<^verbatim>\<open>xpr << b1, b2, ...\<close> for blocks that all span the full height of
  \<open>xpr\<close>, which is the only way the header uses it: the blocks are written left to right
  from the column cursor \<open>m_col\<close>, each must have the rows of \<open>xpr\<close> and fit in the
  remaining columns, and at the end the cursor must have reached the last column.
\<close>

fun comma_initializer :: "'a MatX \<Rightarrow> nat \<Rightarrow> 'a MatX list \<Rightarrow> 'a MatX option" where
  "comma_initializer xpr m_col [] = (if m_col = cols xpr then Some xpr else None)"
| "comma_initializer xpr m_col (other # rest) =
     (case set_middleCols xpr m_col (cols other) other of
        None \<Rightarrow> None
      | Some xpr' \<Rightarrow> comma_initializer xpr' (m_col + cols other) rest)"

subsection \<open>Counted loops\<close>

text \<open>
  \<^verbatim>\<open>for (int i = i0; i < n; ++i) body\<close>, where the body updates one local variable and may
  fail. The counter is a natural number: the obstacle count is one, and no vector that
  fits in memory makes \<^verbatim>\<open>i * 9\<close> leave the range of \<^verbatim>\<open>int\<close>.
\<close>

function for_loop :: "nat \<Rightarrow> nat \<Rightarrow> (nat \<Rightarrow> 's \<Rightarrow> 's option) \<Rightarrow> 's \<Rightarrow> 's option" where
  "for_loop i n body s =
     (if i < n
      then (case body i s of None \<Rightarrow> None | Some s' \<Rightarrow> for_loop (Suc i) n body s')
      else Some s)"
  by pat_completeness auto
termination
  by (relation "measure (\<lambda>(i, n, body, s). n - i)") auto

declare for_loop.simps [simp del]

section \<open>Dimensions\<close>

text \<open>
  Modelled from the spec: the header \<^verbatim>\<open>upright_control/dimensions.h\<close> with the structs
  \<^verbatim>\<open>RobotDimensions\<close> and \<^verbatim>\<open>OptimizationDimensions\<close> is not part of the sources at hand.
  The spec gives \<^verbatim>\<open>RobotDimensions\<close> the fields \<open>q\<close>, \<open>v\<close>, \<open>x\<close>, \<open>u\<close> in this order (as the
  initialiser \<^verbatim>\<open>OBSTACLE_DIMENSIONS{3, 3, 9, 0}\<close> needs them) and \<^verbatim>\<open>OptimizationDimensions\<close>
  the fields \<open>robot\<close> and \<open>o\<close> with the derived totals \<open>q() = robot.q + 3 o\<close>,
  \<open>v() = robot.v + 3 o\<close>, \<open>x() = robot.x + 9 o\<close> and \<open>u() = robot.u\<close>. The fields carry the
  prefix \<open>dim_\<close> and the totals the prefix \<open>opt_\<close>, since one-letter constants would
  capture the variables of every later statement.
\<close>

record RobotDimensions =
  dim_q :: nat
  dim_v :: nat
  dim_x :: nat
  dim_u :: nat

record OptimizationDimensions =
  robot :: RobotDimensions
  dim_o :: nat

definition opt_q :: "OptimizationDimensions \<Rightarrow> nat" where
  "opt_q d = dim_q (robot d) + dim_o d * 3"

definition opt_v :: "OptimizationDimensions \<Rightarrow> nat" where
  "opt_v d = dim_v (robot d) + dim_o d * 3"

definition opt_x :: "OptimizationDimensions \<Rightarrow> nat" where
  "opt_x d = dim_x (robot d) + dim_o d * 9"

definition opt_u :: "OptimizationDimensions \<Rightarrow> nat" where
  "opt_u d = dim_u (robot d)"

section \<open>The mapping interface\<close>

text \<open>
  The four virtual methods of \<^verbatim>\<open>ocs2::PinocchioStateInputMapping\<close> that the header overrides.
  An implementation is a value of this record; the robot mapping that the system mapping
  holds is an arbitrary one.
\<close>

record 'a PinocchioStateInputMapping =
  getPinocchioJointPosition :: "'a VecX \<Rightarrow> 'a VecX option"
  getPinocchioJointVelocity :: "'a VecX \<Rightarrow> 'a VecX \<Rightarrow> 'a VecX option"
  getPinocchioJointAcceleration :: "'a VecX \<Rightarrow> 'a VecX \<Rightarrow> 'a VecX option"
  getOcs2Jacobian :: "'a VecX \<Rightarrow> 'a MatX \<Rightarrow> 'a MatX \<Rightarrow> ('a MatX \<times> 'a MatX) option"

section \<open>TripleIntegratorPinocchioMapping\<close>

text \<open>
  The methods of the class take the member \<^verbatim>\<open>dims_\<close> as their argument \<open>dims\<close>; their names
  carry the prefix \<open>TripleIntegrator_\<close>, since the system mapping has methods of the same
  names. \<^verbatim>\<open>getOcs2Jacobian\<close> allocates \<open>dfdx\<close> without an initialiser and fills it with the comma
  initialiser; \<open>dfdu\<close> is built by \<^verbatim>\<open>MatXs::Zero\<close>.
\<close>

definition TripleIntegrator_getPinocchioJointPosition ::
  "RobotDimensions \<Rightarrow> 'a VecX \<Rightarrow> 'a VecX option" where
  "TripleIntegrator_getPinocchioJointPosition dims state = head state (dim_q dims)"

definition TripleIntegrator_getPinocchioJointVelocity ::
  "RobotDimensions \<Rightarrow> 'a VecX \<Rightarrow> 'a VecX \<Rightarrow> 'a VecX option" where
  "TripleIntegrator_getPinocchioJointVelocity dims state input =
     segment state (dim_q dims) (dim_v dims)"

definition TripleIntegrator_getPinocchioJointAcceleration ::
  "RobotDimensions \<Rightarrow> 'a VecX \<Rightarrow> 'a VecX \<Rightarrow> 'a VecX option" where
  "TripleIntegrator_getPinocchioJointAcceleration dims state input = tail state (dim_v dims)"

definition TripleIntegrator_getOcs2Jacobian ::
  "(nat \<Rightarrow> nat \<Rightarrow> 'a) \<Rightarrow> RobotDimensions \<Rightarrow> 'a VecX \<Rightarrow> ('a::zero) MatX \<Rightarrow> 'a MatX
     \<Rightarrow> ('a MatX \<times> 'a MatX) option" where
  "TripleIntegrator_getOcs2Jacobian uninit dims state Jq Jv =
     (let output_dim = rows Jq;
          dfdx = MatXs uninit output_dim (cols Jq + cols Jv + dim_v dims)
      in case comma_initializer dfdx 0 [Jq, Jv, MatXs_Zero output_dim (dim_v dims)] of
           None \<Rightarrow> None
         | Some dfdx' \<Rightarrow>
             (let dfdu = MatXs_Zero output_dim (dim_u dims)
              in Some (dfdx', dfdu)))"

definition TripleIntegratorPinocchioMapping ::
  "(nat \<Rightarrow> nat \<Rightarrow> 'a) \<Rightarrow> RobotDimensions \<Rightarrow> ('a::zero) PinocchioStateInputMapping" where
  "TripleIntegratorPinocchioMapping uninit dims =
     \<lparr>getPinocchioJointPosition = TripleIntegrator_getPinocchioJointPosition dims,
      getPinocchioJointVelocity = TripleIntegrator_getPinocchioJointVelocity dims,
      getPinocchioJointAcceleration = TripleIntegrator_getPinocchioJointAcceleration dims,
      getOcs2Jacobian = TripleIntegrator_getOcs2Jacobian uninit dims\<rparr>"

definition OBSTACLE_DIMENSIONS :: RobotDimensions where
  "OBSTACLE_DIMENSIONS = \<lparr>dim_q = 3, dim_v = 3, dim_x = 9, dim_u = 0\<rparr>"

definition OBSTACLE_PINOCCHIO_MAPPING ::
  "(nat \<Rightarrow> nat \<Rightarrow> 'a) \<Rightarrow> ('a::zero) PinocchioStateInputMapping" where
  "OBSTACLE_PINOCCHIO_MAPPING uninit = TripleIntegratorPinocchioMapping uninit OBSTACLE_DIMENSIONS"

section \<open>SystemPinocchioMapping\<close>

text \<open>
  The members \<^verbatim>\<open>dims_\<close> and \<^verbatim>\<open>robot_mapping_\<close> are the fields \<open>dims\<close> and \<open>robot_mapping\<close>: a
  name cannot end with an underscore here. The methods carry the prefix \<open>System_\<close> and take
  the object as \<open>this\<close>.
\<close>

record 'a SystemPinocchioMapping =
  dims :: OptimizationDimensions
  robot_mapping :: "'a PinocchioStateInputMapping"

text \<open>
  The constructor builds the robot mapping, the template parameter \<^verbatim>\<open>Mapping\<close>, from the
  robot's dimensions.
\<close>

definition SystemPinocchioMapping ::
  "(RobotDimensions \<Rightarrow> 'a PinocchioStateInputMapping) \<Rightarrow> OptimizationDimensions
     \<Rightarrow> 'a SystemPinocchioMapping" where
  "SystemPinocchioMapping Mapping d = \<lparr>dims = d, robot_mapping = Mapping (robot d)\<rparr>"

definition System_getPinocchioJointPosition ::
  "(nat \<Rightarrow> nat \<Rightarrow> 'a) \<Rightarrow> ('a::zero) SystemPinocchioMapping \<Rightarrow> 'a VecX \<Rightarrow> 'a VecX option" where
  "System_getPinocchioJointPosition uninit this state =
     (let q_pin = VecXs uninit (opt_q (dims this)) in
      do {
        x_robot \<leftarrow> head state (dim_x (robot (dims this)));
        q_robot \<leftarrow> getPinocchioJointPosition (robot_mapping this) x_robot;
        q_pin \<leftarrow> set_head q_pin (dim_q (robot (dims this))) q_robot;
        for_loop 0 (dim_o (dims this))
          (\<lambda>i q_pin. do {
             x_obs \<leftarrow> segment state (dim_x (robot (dims this)) + i * 9) 9;
             q_obs \<leftarrow> getPinocchioJointPosition (OBSTACLE_PINOCCHIO_MAPPING uninit) x_obs;
             set_segment q_pin (dim_q (robot (dims this)) + i * 3) 3 q_obs
           }) q_pin
      })"

definition System_getPinocchioJointVelocity ::
  "(nat \<Rightarrow> nat \<Rightarrow> 'a) \<Rightarrow> ('a::zero) SystemPinocchioMapping \<Rightarrow> 'a VecX \<Rightarrow> 'a VecX
     \<Rightarrow> 'a VecX option" where
  "System_getPinocchioJointVelocity uninit this state input =
     (let v_pin = VecXs uninit (opt_v (dims this));
          u_obs = VecXs_Zero 3 in
      do {
        x_robot \<leftarrow> head state (dim_x (robot (dims this)));
        u_robot \<leftarrow> head input (dim_u (robot (dims this)));
        v_robot \<leftarrow> getPinocchioJointVelocity (robot_mapping this) x_robot u_robot;
        v_pin \<leftarrow> set_head v_pin (dim_v (robot (dims this))) v_robot;
        for_loop 0 (dim_o (dims this))
          (\<lambda>i v_pin. do {
             x_obs \<leftarrow> segment state (dim_x (robot (dims this)) + i * 9) 9;
             v_obs \<leftarrow> getPinocchioJointVelocity (OBSTACLE_PINOCCHIO_MAPPING uninit) x_obs u_obs;
             set_segment v_pin (dim_v (robot (dims this)) + i * 3) 3 v_obs
           }) v_pin
      })"

definition System_getPinocchioJointAcceleration ::
  "(nat \<Rightarrow> nat \<Rightarrow> 'a) \<Rightarrow> ('a::zero) SystemPinocchioMapping \<Rightarrow> 'a VecX \<Rightarrow> 'a VecX
     \<Rightarrow> 'a VecX option" where
  "System_getPinocchioJointAcceleration uninit this state input =
     (let a_pin = VecXs uninit (opt_v (dims this));
          u_obs = VecXs_Zero 3 in
      do {
        x_robot \<leftarrow> head state (dim_x (robot (dims this)));
        u_robot \<leftarrow> head input (dim_u (robot (dims this)));
        a_robot \<leftarrow> getPinocchioJointAcceleration (robot_mapping this) x_robot u_robot;
        a_pin \<leftarrow> set_head a_pin (dim_v (robot (dims this))) a_robot;
        for_loop 0 (dim_o (dims this))
          (\<lambda>i a_pin. do {
             x_obs \<leftarrow> segment state (dim_x (robot (dims this)) + i * 9) 9;
             a_obs \<leftarrow> getPinocchioJointAcceleration (OBSTACLE_PINOCCHIO_MAPPING uninit) x_obs u_obs;
             set_segment a_pin (dim_v (robot (dims this)) + i * 3) 3 a_obs
           }) a_pin
      })"

text \<open>
  The first two statements of \<^verbatim>\<open>getOcs2Jacobian\<close> after reading the row count: both result
  matrices are allocated without an initialiser.
\<close>

definition System_getOcs2Jacobian_alloc ::
  "(nat \<Rightarrow> nat \<Rightarrow> 'a) \<Rightarrow> 'a SystemPinocchioMapping \<Rightarrow> 'a MatX \<Rightarrow> 'a MatX \<times> 'a MatX" where
  "System_getOcs2Jacobian_alloc uninit this Jq_pin =
     (let output_dim = rows Jq_pin
      in (MatXs uninit output_dim (opt_x (dims this)),
          MatXs uninit output_dim (opt_u (dims this))))"

definition System_getOcs2Jacobian ::
  "(nat \<Rightarrow> nat \<Rightarrow> 'a) \<Rightarrow> ('a::zero) SystemPinocchioMapping \<Rightarrow> 'a VecX \<Rightarrow> 'a MatX \<Rightarrow> 'a MatX
     \<Rightarrow> ('a MatX \<times> 'a MatX) option" where
  "System_getOcs2Jacobian uninit this state Jq_pin Jv_pin =
     (case System_getOcs2Jacobian_alloc uninit this Jq_pin of (dfdx, dfdu) \<Rightarrow>
      do {
        x_robot \<leftarrow> head state (dim_x (robot (dims this)));
        Jq_pin_robot \<leftarrow> leftCols Jq_pin (dim_q (robot (dims this)));
        Jv_pin_robot \<leftarrow> leftCols Jv_pin (dim_v (robot (dims this)));
        (dfdx_robot, dfdu_robot) \<leftarrow>
          getOcs2Jacobian (robot_mapping this) x_robot Jq_pin_robot Jv_pin_robot;
        dfdx \<leftarrow> set_leftCols dfdx (dim_x (robot (dims this))) dfdx_robot;
        dfdu \<leftarrow> set_leftCols dfdu (dim_u (robot (dims this))) dfdu_robot;
        dfdx \<leftarrow> for_loop 0 (dim_o (dims this))
          (\<lambda>i dfdx. do {
             x_obs \<leftarrow> segment state (dim_x (robot (dims this)) + i * 9) 9;
             Jq_pin_obs \<leftarrow> middleCols Jq_pin (dim_q (robot (dims this)) + i * 3) 3;
             Jv_pin_obs \<leftarrow> middleCols Jv_pin (dim_v (robot (dims this)) + i * 3) 3;
             (dfdx_obs, ignore) \<leftarrow>
               getOcs2Jacobian (OBSTACLE_PINOCCHIO_MAPPING uninit) x_obs Jq_pin_obs Jv_pin_obs;
             set_middleCols dfdx (dim_x (robot (dims this)) + i * 9) 9 dfdx_obs
           }) dfdx;
        Some (dfdx, dfdu)
      })"

section \<open>Column blocks assigned by getOcs2Jacobian\<close>

text \<open>
  The blocks of columns of \<open>dfdx\<close> that \<^verbatim>\<open>SystemPinocchioMapping::getOcs2Jacobian\<close> assigns, as
  pairs of first column and width, in the order of the assignments: \<^verbatim>\<open>leftCols(robot.x)\<close>,
  then \<^verbatim>\<open>middleCols(robot.x + i * 9, 9)\<close> for each obstacle.
\<close>

definition System_getOcs2Jacobian_writes :: "OptimizationDimensions \<Rightarrow> (nat \<times> nat) list" where
  "System_getOcs2Jacobian_writes d =
     (0, dim_x (robot d)) # map (\<lambda>i. (dim_x (robot d) + i * 9, 9)) [0..<dim_o d]"

section \<open>Swapping two blocks of a vector\<close>

text \<open>
  The vector \<open>v\<close> with its blocks \<open>i\<close> and \<open>j\<close> exchanged, where block \<open>a\<close> is the \<open>w\<close> entries
  from index \<open>base + a w\<close> on. This is the statement's side of the claim that obstacles are
  interchangeable; the header has no such function.
\<close>

definition swap_blocks :: "nat \<Rightarrow> nat \<Rightarrow> nat \<Rightarrow> nat \<Rightarrow> 'a list \<Rightarrow> 'a list" where
  "swap_blocks base w i j v =
     map (\<lambda>k. if base + i * w \<le> k \<and> k < base + i * w + w then v ! (k - i * w + j * w)
              else if base + j * w \<le> k \<and> k < base + j * w + w then v ! (k - j * w + i * w)
              else v ! k) [0..<length v]"

section \<open>Example data\<close>

text \<open>
  A system whose robot is itself a triple integrator with one joint (\<open>q = 1\<close>, \<open>v = 1\<close>,
  \<open>x = 3\<close>, \<open>u = 1\<close>), with \<open>n\<close> obstacles, a state for two obstacles and Jacobians of one
  row with the seven columns that two obstacles need.
\<close>

definition example_system :: "nat \<Rightarrow> int SystemPinocchioMapping" where
  "example_system n =
     SystemPinocchioMapping (TripleIntegratorPinocchioMapping (\<lambda>i j. 0))
       \<lparr>robot = \<lparr>dim_q = 1, dim_v = 1, dim_x = 3, dim_u = 1\<rparr>, dim_o = n\<rparr>"

definition example_state :: "int VecX" where
  "example_state = [10, 20, 30, 1, 2, 3, 4, 5, 6, 7, 8, 9, 11, 12, 13, 14, 15, 16, 17, 18, 19]"

definition example_Jq :: "int MatX" where
  "example_Jq = \<lparr>rows = 1, columns = [[1], [2], [3], [4], [5], [6], [7]]\<rparr>"

definition example_Jv :: "int MatX" where
  "example_Jv = \<lparr>rows = 1, columns = [[-1], [-2], [-3], [-4], [-5], [-6], [-7]]\<rparr>"

definition example_uninit :: "nat \<Rightarrow> nat \<Rightarrow> int" where
  "example_uninit i j = 7"

section \<open>Properties of counted loops\<close>

lemma for_loop_done: "n \<le> i \<Longrightarrow> for_loop i n body s = Some s"
  by (simp add: for_loop.simps)

lemma for_loop_step:
  "i < n \<Longrightarrow> for_loop i n body s =
     (case body i s of None \<Rightarrow> None | Some s' \<Rightarrow> for_loop (Suc i) n body s')"
  by (subst for_loop.simps) simp

lemma for_loop_cong_range:
  assumes "\<And>j s. i \<le> j \<Longrightarrow> j < n \<Longrightarrow> body1 j s = body2 j s"
  shows "for_loop i n body1 s = for_loop i n body2 s"
  using assms
proof (induction "n - i" arbitrary: i s)
  case 0
  then show ?case by (simp add: for_loop_done)
next
  case (Suc k)
  then have lt: "i < n" by simp
  have b: "body1 i s = body2 i s" using Suc.prems lt by simp
  show ?case
  proof (cases "body2 i s")
    case None
    then show ?thesis using b lt by (simp add: for_loop_step)
  next
    case (Some s')
    have "for_loop (Suc i) n body1 s' = for_loop (Suc i) n body2 s'"
      using Suc.hyps(1) [of "Suc i" s'] Suc.hyps(2) Suc.prems by simp
    then show ?thesis using b lt Some by (simp add: for_loop_step)
  qed
qed

lemma for_loop_rel:
  assumes "R i s1 s2"
    and "\<And>j a b. i \<le> j \<Longrightarrow> j < n \<Longrightarrow> R j a b \<Longrightarrow> rel_option (R (Suc j)) (body1 j a) (body2 j b)"
    and "i \<le> n"
  shows "rel_option (R n) (for_loop i n body1 s1) (for_loop i n body2 s2)"
  using assms
proof (induction "n - i" arbitrary: i s1 s2)
  case 0
  then show ?case by (simp add: for_loop_done)
next
  case (Suc k)
  then have lt: "i < n" by simp
  have b: "rel_option (R (Suc i)) (body1 i s1) (body2 i s2)"
    using Suc.prems(2) [of i s1 s2] Suc.prems(1) lt by simp
  show ?case
  proof (cases "body1 i s1")
    case None
    then have "body2 i s2 = None" using b by (cases "body2 i s2") simp_all
    then show ?thesis using None lt by (simp add: for_loop_step)
  next
    case (Some a)
    then obtain c where c: "body2 i s2 = Some c" and r: "R (Suc i) a c"
      using b by (cases "body2 i s2") simp_all
    have "rel_option (R n) (for_loop (Suc i) n body1 a) (for_loop (Suc i) n body2 c)"
      using Suc.hyps(1) [of "Suc i" a c] Suc.hyps(2) Suc.prems(2) r lt by simp
    then show ?thesis using Some c lt by (simp add: for_loop_step)
  qed
qed

lemma for_loop_set_segment:
  assumes "base + n * w \<le> length v"
    and "\<And>j. j < n \<Longrightarrow> length (f j) = w"
    and "i \<le> n"
  shows "for_loop i n (\<lambda>j v. set_segment v (base + j * w) w (f j)) v =
           Some (take (base + i * w) v @ concat (map f [i..<n]) @ drop (base + n * w) v)"
  using assms
proof (induction "n - i" arbitrary: i v)
  case 0
  then show ?case by (simp add: for_loop_done)
next
  case (Suc k)
  then have lt: "i < n" by simp
  then have le: "Suc i * w \<le> n * w" by (intro mult_le_mono1) simp
  let ?v' = "take (base + i * w) v @ f i @ drop (base + i * w + w) v"
  have fi: "length (f i) = w" using Suc.prems(2) lt by simp
  have w: "set_segment v (base + i * w) w (f i) = Some ?v'"
    using Suc.prems(1) le fi by (simp add: set_segment_def)
  have len: "length ?v' = length v" using Suc.prems(1) le fi by simp
  have ih: "for_loop (Suc i) n (\<lambda>j v. set_segment v (base + j * w) w (f j)) ?v' =
      Some (take (base + Suc i * w) ?v' @ concat (map f [Suc i..<n]) @ drop (base + n * w) ?v')"
    using Suc.hyps(1) [of "Suc i" ?v'] Suc.hyps(2) Suc.prems(2) Suc.prems(1) lt len by simp
  have t: "take (base + Suc i * w) ?v' = take (base + i * w) v @ f i"
    using Suc.prems(1) le fi by simp
  have le2: "i * w \<le> n * w" using lt by (intro mult_le_mono1) simp
  have d: "drop (base + n * w) ?v' = drop (base + n * w) v"
    using Suc.prems(1) le le2 fi by (simp add: add.commute)
  show ?case
    using lt w ih t d by (simp add: for_loop_step upt_conv_Cons)
qed

section \<open>Properties of TripleIntegratorPinocchioMapping\<close>

lemma take_drop_nth: "s + n \<le> length v \<Longrightarrow> take n (drop s v) = map ((!) v) [s..<s + n]"
  by (rule nth_equalityI) auto

lemma comma_initializer_three:
  "comma_initializer (MatXs uninit r (cols A + cols B + cols C)) 0 [A, B, C] =
     (if rows A = r \<and> rows B = r \<and> rows C = r
      then Some \<lparr>rows = r, columns = columns A @ columns B @ columns C\<rparr> else None)"
  by (simp add: set_middleCols_def MatXs_def cols_def)

lemma TripleIntegrator_getOcs2Jacobian_eq:
  "TripleIntegrator_getOcs2Jacobian uninit d state Jq Jv =
     (if rows Jv = rows Jq
      then Some (\<lparr>rows = rows Jq,
                  columns = columns Jq @ columns Jv @ replicate (dim_v d) (replicate (rows Jq) 0)\<rparr>,
                 MatXs_Zero (rows Jq) (dim_u d))
      else None)"
proof -
  have c: "cols (MatXs_Zero (rows Jq) (dim_v d) :: 'a MatX) = dim_v d"
    by (simp add: cols_def MatXs_Zero_def)
  show ?thesis
    unfolding TripleIntegrator_getOcs2Jacobian_def Let_def
    using comma_initializer_three [of uninit "rows Jq" Jq Jv "MatXs_Zero (rows Jq) (dim_v d)"]
    by (simp add: c) (simp add: MatXs_Zero_def)
qed

lemma OBSTACLE_getPinocchioJointPosition:
  "getPinocchioJointPosition (OBSTACLE_PINOCCHIO_MAPPING uninit) state = head state 3"
  by (simp add: OBSTACLE_PINOCCHIO_MAPPING_def TripleIntegratorPinocchioMapping_def
      OBSTACLE_DIMENSIONS_def TripleIntegrator_getPinocchioJointPosition_def)

lemma OBSTACLE_getPinocchioJointVelocity:
  "getPinocchioJointVelocity (OBSTACLE_PINOCCHIO_MAPPING uninit) state input = segment state 3 3"
  by (simp add: OBSTACLE_PINOCCHIO_MAPPING_def TripleIntegratorPinocchioMapping_def
      OBSTACLE_DIMENSIONS_def TripleIntegrator_getPinocchioJointVelocity_def)

lemma OBSTACLE_getPinocchioJointAcceleration:
  "getPinocchioJointAcceleration (OBSTACLE_PINOCCHIO_MAPPING uninit) state input = tail state 3"
  by (simp add: OBSTACLE_PINOCCHIO_MAPPING_def TripleIntegratorPinocchioMapping_def
      OBSTACLE_DIMENSIONS_def TripleIntegrator_getPinocchioJointAcceleration_def)

lemma OBSTACLE_getOcs2Jacobian:
  "getOcs2Jacobian (OBSTACLE_PINOCCHIO_MAPPING uninit) state Jq Jv =
     (if rows Jv = rows Jq
      then Some (\<lparr>rows = rows Jq,
                  columns = columns Jq @ columns Jv @ replicate 3 (replicate (rows Jq) 0)\<rparr>,
                 MatXs_Zero (rows Jq) 0)
      else None)"
  by (simp add: OBSTACLE_PINOCCHIO_MAPPING_def TripleIntegratorPinocchioMapping_def
      OBSTACLE_DIMENSIONS_def TripleIntegrator_getOcs2Jacobian_eq)

text \<open>
  C2: for an obstacle state of length 9 and Jacobians \<open>Jq\<close>, \<open>Jv\<close> of three columns each
  and the same number of rows, the obstacle mapping's \<^verbatim>\<open>getOcs2Jacobian\<close> returns as
  \<open>dfdx\<close> the nine-column matrix \<open>[Jq | Jv | 0]\<close>, whose last three columns are zero,
  and as \<open>dfdu\<close> the zero matrix with the same rows and no column. The indeterminate
  contents of the freshly allocated \<open>dfdx\<close> do not show in the result.
\<close>

theorem obstacle_getOcs2Jacobian_concat:
  assumes "length state = 9" and "cols Jq = 3" and "cols Jv = 3" and "rows Jv = rows Jq"
  shows "getOcs2Jacobian (OBSTACLE_PINOCCHIO_MAPPING uninit) state Jq Jv =
           Some (\<lparr>rows = rows Jq,
                  columns = columns Jq @ columns Jv @ columns (MatXs_Zero (rows Jq) 3)\<rparr>,
                 MatXs_Zero (rows Jq) 0)
         \<and> cols \<lparr>rows = rows Jq,
                  columns = columns Jq @ columns Jv @ columns (MatXs_Zero (rows Jq) 3 :: 'a MatX)\<rparr> = 9
         \<and> cols (MatXs_Zero (rows Jq) 0 :: ('a::zero) MatX) = 0"
  using assms by (simp add: OBSTACLE_getOcs2Jacobian) (simp add: MatXs_Zero_def cols_def)

theorem obstacle_getOcs2Jacobian_concat_witness:
  "length [1, 2, 3, 4, 5, 6, 7, 8, 9 :: int] = 9
   \<and> cols \<lparr>rows = 1, columns = [[1], [2], [3 :: int]]\<rparr> = 3
   \<and> cols \<lparr>rows = 1, columns = [[4], [5], [6 :: int]]\<rparr> = 3
   \<and> getOcs2Jacobian (OBSTACLE_PINOCCHIO_MAPPING example_uninit) [1, 2, 3, 4, 5, 6, 7, 8, 9 :: int]
         \<lparr>rows = 1, columns = [[1], [2], [3]]\<rparr> \<lparr>rows = 1, columns = [[4], [5], [6]]\<rparr> =
       Some (\<lparr>rows = 1, columns = [[1], [2], [3], [4], [5], [6], [0], [0], [0]]\<rparr>,
             \<lparr>rows = 1, columns = []\<rparr>)"
  using obstacle_getOcs2Jacobian_concat [of "[1, 2, 3, 4, 5, 6, 7, 8, 9 :: int]"
      "\<lparr>rows = 1, columns = [[1], [2], [3 :: int]]\<rparr>"
      "\<lparr>rows = 1, columns = [[4], [5], [6 :: int]]\<rparr>" example_uninit]
  by (simp add: cols_def MatXs_Zero_def numeral_3_eq_3)

text \<open>
  C4: on a state of length exactly 9 the obstacle mapping returns the entries \<open>[0, 3)\<close> as
  position, the entries \<open>[3, 6)\<close> as velocity and the entries \<open>[6, 9)\<close> as acceleration,
  and the input given to the velocity and the acceleration has no effect on them.
\<close>

theorem obstacle_state_slices:
  assumes "length state = 9"
  shows "getPinocchioJointPosition (OBSTACLE_PINOCCHIO_MAPPING uninit) state =
           Some (map ((!) state) [0..<3])
         \<and> getPinocchioJointVelocity (OBSTACLE_PINOCCHIO_MAPPING uninit) state input =
           Some (map ((!) state) [3..<6])
         \<and> getPinocchioJointAcceleration (OBSTACLE_PINOCCHIO_MAPPING uninit) state input =
           Some (map ((!) state) [6..<9])
         \<and> getPinocchioJointVelocity (OBSTACLE_PINOCCHIO_MAPPING uninit) state input =
           getPinocchioJointVelocity (OBSTACLE_PINOCCHIO_MAPPING uninit) state input'
         \<and> getPinocchioJointAcceleration (OBSTACLE_PINOCCHIO_MAPPING uninit) state input =
           getPinocchioJointAcceleration (OBSTACLE_PINOCCHIO_MAPPING uninit) state input'"
proof -
  have p: "take 3 state = map ((!) state) [0..<3]"
    using take_drop_nth [of 0 3 state] assms by simp
  have v: "take 3 (drop 3 state) = map ((!) state) [3..<6]"
    using take_drop_nth [of 3 3 state] assms by simp
  have a: "drop 6 state = map ((!) state) [6..<9]"
    using take_drop_nth [of 6 3 state] assms by simp
  show ?thesis
    using assms p v a
    by (simp add: OBSTACLE_getPinocchioJointPosition OBSTACLE_getPinocchioJointVelocity
        OBSTACLE_getPinocchioJointAcceleration head_def segment_def tail_def)
qed

theorem obstacle_state_slices_witness:
  "length [1, 2, 3, 4, 5, 6, 7, 8, 9 :: int] = 9
   \<and> getPinocchioJointPosition (OBSTACLE_PINOCCHIO_MAPPING (\<lambda>i j. 0)) [1, 2, 3, 4, 5, 6, 7, 8, 9 :: int] =
       Some [1, 2, 3]
   \<and> getPinocchioJointVelocity (OBSTACLE_PINOCCHIO_MAPPING (\<lambda>i j. 0)) [1, 2, 3, 4, 5, 6, 7, 8, 9 :: int] [] =
       Some [4, 5, 6]
   \<and> getPinocchioJointAcceleration (OBSTACLE_PINOCCHIO_MAPPING (\<lambda>i j. 0)) [1, 2, 3, 4, 5, 6, 7, 8, 9 :: int] [] =
       Some [7, 8, 9]
   \<and> getPinocchioJointVelocity (OBSTACLE_PINOCCHIO_MAPPING (\<lambda>i j. 0)) [1, 2, 3, 4, 5, 6, 7, 8, 9 :: int] [] =
       getPinocchioJointVelocity (OBSTACLE_PINOCCHIO_MAPPING (\<lambda>i j. 0)) [1, 2, 3, 4, 5, 6, 7, 8, 9] [42]
   \<and> getPinocchioJointAcceleration (OBSTACLE_PINOCCHIO_MAPPING (\<lambda>i j. 0)) [1, 2, 3, 4, 5, 6, 7, 8, 9 :: int] [] =
       getPinocchioJointAcceleration (OBSTACLE_PINOCCHIO_MAPPING (\<lambda>i j. 0)) [1, 2, 3, 4, 5, 6, 7, 8, 9] [42]"
  using obstacle_state_slices [of "[1, 2, 3, 4, 5, 6, 7, 8, 9 :: int]" "\<lambda>i j. 0" "[]" "[42]"]
  by (auto simp add: upt_rec)

text \<open>
  C9: the pair that the obstacle mapping's \<^verbatim>\<open>getOcs2Jacobian\<close> returns is the same for any
  two state vectors, of any length, and for any contents of the storage it allocates.
\<close>

theorem obstacle_getOcs2Jacobian_ignores_state:
  "getOcs2Jacobian (OBSTACLE_PINOCCHIO_MAPPING uninit1) s1 Jq Jv =
   getOcs2Jacobian (OBSTACLE_PINOCCHIO_MAPPING uninit2) s2 Jq Jv"
  by (simp add: OBSTACLE_getOcs2Jacobian)

section \<open>Closed forms of the SystemPinocchioMapping operations\<close>

text \<open>
  On arguments that are long enough for every block that is read, each operation of the
  system mapping fails exactly when the robot mapping fails or returns a result of the wrong
  shape, and otherwise returns the robot's result followed by one block per obstacle.
\<close>

lemma obstacle_loop_vec:
  assumes "rx + n * 9 \<le> length state"
    and "base + n * 3 \<le> length v"
    and "\<And>x. length x = 9 \<Longrightarrow> g x = Some (h x) \<and> length (h x) = 3"
  shows "for_loop 0 n
           (\<lambda>i v. do {
              x_obs \<leftarrow> segment state (rx + i * 9) 9;
              b \<leftarrow> g x_obs;
              set_segment v (base + i * 3) 3 b
            }) v =
         Some (take base v @ concat (map (\<lambda>i. h (take 9 (drop (rx + i * 9) state))) [0..<n])
               @ drop (base + n * 3) v)"
proof -
  let ?f = "\<lambda>i. h (take 9 (drop (rx + i * 9) state))"
  have body: "(do {
              x_obs \<leftarrow> segment state (rx + j * 9) 9;
              b \<leftarrow> g x_obs;
              set_segment s (base + j * 3) 3 b
            }) = set_segment s (base + j * 3) 3 (?f j)" if "j < n" for j s
  proof -
    have "rx + j * 9 + 9 \<le> length state" using that assms(1) by simp
    then have "segment state (rx + j * 9) 9 = Some (take 9 (drop (rx + j * 9) state))"
      and "length (take 9 (drop (rx + j * 9) state)) = 9"
      by (simp_all add: segment_def)
    then show ?thesis using assms(3) by simp
  qed
  have len: "length (?f j) = 3" if "j < n" for j
  proof -
    have "rx + j * 9 + 9 \<le> length state" using that assms(1) by simp
    then have "length (take 9 (drop (rx + j * 9) state)) = 9" by simp
    then show ?thesis using assms(3) by blast
  qed
  have "for_loop 0 n
           (\<lambda>i v. do {
              x_obs \<leftarrow> segment state (rx + i * 9) 9;
              b \<leftarrow> g x_obs;
              set_segment v (base + i * 3) 3 b
            }) v = for_loop 0 n (\<lambda>j v. set_segment v (base + j * 3) 3 (?f j)) v"
    by (rule for_loop_cong_range) (simp add: body)
  also have "\<dots> = Some (take (base + 0 * 3) v @ concat (map ?f [0..<n]) @ drop (base + n * 3) v)"
    by (rule for_loop_set_segment) (use assms(2) len in simp_all)
  finally show ?thesis by simp
qed

lemma system_vec_assemble:
  assumes "rx + n * 9 \<le> length state"
    and "\<And>x. length x = 9 \<Longrightarrow> g x = Some (h x) \<and> length (h x) = 3"
  shows "do {
           v \<leftarrow> set_head (VecXs uninit (rq + n * 3)) rq r;
           for_loop 0 n
             (\<lambda>i v. do {
                x_obs \<leftarrow> segment state (rx + i * 9) 9;
                b \<leftarrow> g x_obs;
                set_segment v (rq + i * 3) 3 b
              }) v
         } =
         (if length r = rq
          then Some (r @ concat (map (\<lambda>i. h (take 9 (drop (rx + i * 9) state))) [0..<n]))
          else None)"
proof (cases "length r = rq")
  case False
  then show ?thesis by (simp add: set_head_def set_segment_def)
next
  case True
  let ?v = "r @ drop rq (VecXs uninit (rq + n * 3))"
  have s: "set_head (VecXs uninit (rq + n * 3)) rq r = Some ?v"
    using True by (simp add: set_head_def set_segment_def VecXs_def)
  have l: "rq + n * 3 \<le> length ?v" using True by (simp add: VecXs_def)
  have l2: "length ?v = rq + n * 3" using True by (simp add: VecXs_def)
  show ?thesis
    using True obstacle_loop_vec [OF assms(1) l assms(2)] l2
    by (simp add: s)
qed

lemma head_eq: "n \<le> length v \<Longrightarrow> head v n = Some (take n v)"
  by (simp add: head_def)

lemma System_getPinocchioJointPosition_eq:
  assumes "opt_x (dims this) \<le> length state"
  shows "System_getPinocchioJointPosition uninit this state =
     (case getPinocchioJointPosition (robot_mapping this) (take (dim_x (robot (dims this))) state) of
        None \<Rightarrow> None
      | Some q_robot \<Rightarrow>
          if length q_robot = dim_q (robot (dims this))
          then Some (q_robot @ concat (map (\<lambda>i. take 3 (take 9 (drop (dim_x (robot (dims this)) + i * 9) state)))
                      [0..<dim_o (dims this)]))
          else None)"
proof -
  have a: "dim_x (robot (dims this)) + dim_o (dims this) * 9 \<le> length state"
    using assms by (simp add: opt_x_def)
  have g: "getPinocchioJointPosition (OBSTACLE_PINOCCHIO_MAPPING uninit) x = Some (take 3 x)
      \<and> length (take 3 x) = 3" if "length x = 9" for x :: "'a list"
    using that by (simp add: OBSTACLE_getPinocchioJointPosition head_def)
  show ?thesis
    unfolding System_getPinocchioJointPosition_def Let_def opt_q_def
    using a system_vec_assemble [where uninit = uninit and rq = "dim_q (robot (dims this))", OF a g]
    by (simp add: head_eq split: option.splits)
qed

lemma System_getPinocchioJointVelocity_eq:
  assumes "opt_x (dims this) \<le> length state" and "dim_u (robot (dims this)) \<le> length input"
  shows "System_getPinocchioJointVelocity uninit this state input =
     (case getPinocchioJointVelocity (robot_mapping this) (take (dim_x (robot (dims this))) state)
             (take (dim_u (robot (dims this))) input) of
        None \<Rightarrow> None
      | Some v_robot \<Rightarrow>
          if length v_robot = dim_v (robot (dims this))
          then Some (v_robot @ concat (map (\<lambda>i. take 3 (drop 3 (take 9 (drop (dim_x (robot (dims this)) + i * 9) state))))
                      [0..<dim_o (dims this)]))
          else None)"
proof -
  have a: "dim_x (robot (dims this)) + dim_o (dims this) * 9 \<le> length state"
    using assms by (simp add: opt_x_def)
  have g: "getPinocchioJointVelocity (OBSTACLE_PINOCCHIO_MAPPING uninit) x (VecXs_Zero 3) = Some (take 3 (drop 3 x))
      \<and> length (take 3 (drop 3 x)) = 3" if "length x = 9" for x :: "'a list"
    using that by (simp add: OBSTACLE_getPinocchioJointVelocity segment_def)
  show ?thesis
    unfolding System_getPinocchioJointVelocity_def Let_def opt_v_def
    using a assms(2) system_vec_assemble [where uninit = uninit and rq = "dim_v (robot (dims this))", OF a g]
    by (simp add: head_eq split: option.splits)
qed

lemma System_getPinocchioJointAcceleration_eq:
  assumes "opt_x (dims this) \<le> length state" and "dim_u (robot (dims this)) \<le> length input"
  shows "System_getPinocchioJointAcceleration uninit this state input =
     (case getPinocchioJointAcceleration (robot_mapping this) (take (dim_x (robot (dims this))) state)
             (take (dim_u (robot (dims this))) input) of
        None \<Rightarrow> None
      | Some a_robot \<Rightarrow>
          if length a_robot = dim_v (robot (dims this))
          then Some (a_robot @ concat (map (\<lambda>i. drop 6 (take 9 (drop (dim_x (robot (dims this)) + i * 9) state)))
                      [0..<dim_o (dims this)]))
          else None)"
proof -
  have a: "dim_x (robot (dims this)) + dim_o (dims this) * 9 \<le> length state"
    using assms by (simp add: opt_x_def)
  have g: "getPinocchioJointAcceleration (OBSTACLE_PINOCCHIO_MAPPING uninit) x (VecXs_Zero 3) = Some (drop 6 x)
      \<and> length (drop 6 x) = 3" if "length x = 9" for x :: "'a list"
    using that by (simp add: OBSTACLE_getPinocchioJointAcceleration tail_def)
  show ?thesis
    unfolding System_getPinocchioJointAcceleration_def Let_def opt_v_def
    using a assms(2) system_vec_assemble [where uninit = uninit and rq = "dim_v (robot (dims this))", OF a g]
    by (simp add: head_eq split: option.splits)
qed

lemma for_loop_set_middleCols:
  assumes "base + n * w \<le> cols M"
    and "\<And>j. j < n \<Longrightarrow> rows (D j) = rows M \<and> cols (D j) = w"
  shows "for_loop 0 n (\<lambda>j M. set_middleCols M (base + j * w) w (D j)) M =
           Some \<lparr>rows = rows M,
                 columns = take base (columns M) @ concat (map (\<lambda>j. columns (D j)) [0..<n])
                           @ drop (base + n * w) (columns M)\<rparr>"
proof -
  let ?R = "\<lambda>(j::nat) (A::'a MatX) v. rows A = rows M \<and> columns A = v"
  let ?b1 = "\<lambda>j M. set_middleCols M (base + j * w) w (D j)"
  let ?b2 = "\<lambda>j v. set_segment v (base + j * w) w (columns (D j))"
  have "rel_option (?R n) (for_loop 0 n ?b1 M) (for_loop 0 n ?b2 (columns M))"
  proof (rule for_loop_rel [where R = ?R])
    show "rows M = rows M \<and> columns M = columns M" by simp
    show "0 \<le> n" by simp
    fix j and a :: "'a MatX" and b
    assume "j < n" and "rows a = rows M \<and> columns a = b"
    then show "rel_option (?R (Suc j)) (?b1 j a) (?b2 j b)"
      using assms(2) [of j] by (auto simp add: set_middleCols_def set_segment_def cols_def)
  qed
  moreover have "for_loop 0 n ?b2 (columns M) =
      Some (take (base + 0 * w) (columns M) @ concat (map (\<lambda>j. columns (D j)) [0..<n])
            @ drop (base + n * w) (columns M))"
    by (rule for_loop_set_segment) (use assms in \<open>simp_all add: cols_def\<close>)
  ultimately show ?thesis
    by (cases "for_loop 0 n ?b1 M") simp_all
qed

lemma middleCols_eq:
  "start + n \<le> cols M \<Longrightarrow>
     middleCols M start n = Some \<lparr>rows = rows M, columns = take n (drop start (columns M))\<rparr>"
  by (simp add: middleCols_def)

lemma obstacle_loop_mat:
  assumes "rx + n * 9 \<le> length state"
    and "rq + n * 3 \<le> cols Jq"
    and "rv + n * 3 \<le> cols Jv"
    and "0 < n \<Longrightarrow> rows Jv = rows Jq"
    and "rows M = rows Jq"
    and "rx + n * 9 \<le> cols M"
  shows "for_loop 0 n
           (\<lambda>i dfdx. do {
              x_obs \<leftarrow> segment state (rx + i * 9) 9;
              Jq_pin_obs \<leftarrow> middleCols Jq (rq + i * 3) 3;
              Jv_pin_obs \<leftarrow> middleCols Jv (rv + i * 3) 3;
              (dfdx_obs, ignore) \<leftarrow>
                getOcs2Jacobian (OBSTACLE_PINOCCHIO_MAPPING uninit) x_obs Jq_pin_obs Jv_pin_obs;
              set_middleCols dfdx (rx + i * 9) 9 dfdx_obs
            }) M =
         Some \<lparr>rows = rows Jq,
               columns = take rx (columns M)
                 @ concat (map (\<lambda>i. take 3 (drop (rq + i * 3) (columns Jq))
                                     @ take 3 (drop (rv + i * 3) (columns Jv))
                                     @ replicate 3 (replicate (rows Jq) 0)) [0..<n])
                 @ drop (rx + n * 9) (columns M)\<rparr>"
proof -
  let ?D = "\<lambda>i. \<lparr>rows = rows Jq,
                  columns = take 3 (drop (rq + i * 3) (columns Jq))
                            @ take 3 (drop (rv + i * 3) (columns Jv))
                            @ replicate 3 (replicate (rows Jq) (0::'a))\<rparr>"
  have body: "(do {
              x_obs \<leftarrow> segment state (rx + j * 9) 9;
              Jq_pin_obs \<leftarrow> middleCols Jq (rq + j * 3) 3;
              Jv_pin_obs \<leftarrow> middleCols Jv (rv + j * 3) 3;
              (dfdx_obs, ignore) \<leftarrow>
                getOcs2Jacobian (OBSTACLE_PINOCCHIO_MAPPING uninit) x_obs Jq_pin_obs Jv_pin_obs;
              set_middleCols s (rx + j * 9) 9 dfdx_obs
            }) = set_middleCols s (rx + j * 9) 9 (?D j)" if "j < n" for j s
  proof -
    have "rx + j * 9 + 9 \<le> length state" "rq + j * 3 + 3 \<le> cols Jq" "rv + j * 3 + 3 \<le> cols Jv"
      using that assms(1-3) by simp_all
    moreover have "rows Jv = rows Jq" using that assms(4) by simp
    ultimately show ?thesis
      by (simp add: segment_def middleCols_eq OBSTACLE_getOcs2Jacobian)
  qed
  have shape: "rows (?D j) = rows M \<and> cols (?D j) = 9" if "j < n" for j
  proof -
    have "rq + j * 3 + 3 \<le> length (columns Jq)" "rv + j * 3 + 3 \<le> length (columns Jv)"
      using that assms(2,3) by (simp_all add: cols_def)
    then show ?thesis using assms(5) by (simp add: cols_def)
  qed
  have "for_loop 0 n
           (\<lambda>i dfdx. do {
              x_obs \<leftarrow> segment state (rx + i * 9) 9;
              Jq_pin_obs \<leftarrow> middleCols Jq (rq + i * 3) 3;
              Jv_pin_obs \<leftarrow> middleCols Jv (rv + i * 3) 3;
              (dfdx_obs, ignore) \<leftarrow>
                getOcs2Jacobian (OBSTACLE_PINOCCHIO_MAPPING uninit) x_obs Jq_pin_obs Jv_pin_obs;
              set_middleCols dfdx (rx + i * 9) 9 dfdx_obs
            }) M = for_loop 0 n (\<lambda>j M. set_middleCols M (rx + j * 9) 9 (?D j)) M"
    by (rule for_loop_cong_range) (simp add: body)
  also have "\<dots> = Some \<lparr>rows = rows M,
                 columns = take rx (columns M) @ concat (map (\<lambda>j. columns (?D j)) [0..<n])
                           @ drop (rx + n * 9) (columns M)\<rparr>"
    using for_loop_set_middleCols [where D = ?D and M = M and base = rx and n = n and w = 9]
      assms(6) shape by blast
  finally show ?thesis using assms(5) by simp
qed

lemma System_getOcs2Jacobian_eq:
  assumes "opt_x (dims this) \<le> length state"
    and "opt_q (dims this) \<le> cols Jq"
    and "opt_v (dims this) \<le> cols Jv"
    and "0 < dim_o (dims this) \<Longrightarrow> rows Jv = rows Jq"
  shows "System_getOcs2Jacobian uninit this state Jq Jv =
     (case getOcs2Jacobian (robot_mapping this) (take (dim_x (robot (dims this))) state)
             \<lparr>rows = rows Jq, columns = take (dim_q (robot (dims this))) (columns Jq)\<rparr>
             \<lparr>rows = rows Jv, columns = take (dim_v (robot (dims this))) (columns Jv)\<rparr> of
        None \<Rightarrow> None
      | Some (dfdx_robot, dfdu_robot) \<Rightarrow>
          if rows dfdx_robot = rows Jq \<and> cols dfdx_robot = dim_x (robot (dims this))
             \<and> rows dfdu_robot = rows Jq \<and> cols dfdu_robot = dim_u (robot (dims this))
          then Some (\<lparr>rows = rows Jq,
                      columns = columns dfdx_robot
                        @ concat (map (\<lambda>i. take 3 (drop (dim_q (robot (dims this)) + i * 3) (columns Jq))
                                     @ take 3 (drop (dim_v (robot (dims this)) + i * 3) (columns Jv))
                                     @ replicate 3 (replicate (rows Jq) 0)) [0..<dim_o (dims this)])\<rparr>,
                     \<lparr>rows = rows Jq, columns = columns dfdu_robot\<rparr>)
          else None)"
proof -
  let ?rx = "dim_x (robot (dims this))" and ?rq = "dim_q (robot (dims this))"
  let ?rv = "dim_v (robot (dims this))" and ?ru = "dim_u (robot (dims this))"
  let ?n = "dim_o (dims this)"
  have a: "?rx + ?n * 9 \<le> length state" "?rq + ?n * 3 \<le> cols Jq" "?rv + ?n * 3 \<le> cols Jv"
    using assms by (simp_all add: opt_x_def opt_q_def opt_v_def)
  have pre: "head state ?rx = Some (take ?rx state)"
    "leftCols Jq ?rq = Some \<lparr>rows = rows Jq, columns = take ?rq (columns Jq)\<rparr>"
    "leftCols Jv ?rv = Some \<lparr>rows = rows Jv, columns = take ?rv (columns Jv)\<rparr>"
    using a by (simp_all add: head_def leftCols_def middleCols_def)
  show ?thesis
  proof (cases "getOcs2Jacobian (robot_mapping this) (take ?rx state)
             \<lparr>rows = rows Jq, columns = take ?rq (columns Jq)\<rparr>
             \<lparr>rows = rows Jv, columns = take ?rv (columns Jv)\<rparr>")
    case None
    then show ?thesis
      by (simp add: System_getOcs2Jacobian_def System_getOcs2Jacobian_alloc_def Let_def pre)
  next
    case (Some AB)
    obtain A B where AB: "AB = (A, B)" by (cases AB)
    let ?X = "MatXs uninit (rows Jq) (opt_x (dims this))"
    let ?U = "MatXs uninit (rows Jq) (opt_u (dims this))"
    show ?thesis
    proof (cases "rows A = rows Jq \<and> cols A = ?rx \<and> rows B = rows Jq \<and> cols B = ?ru")
      case False
      then have "set_leftCols ?X ?rx A = None \<or> set_leftCols ?U ?ru B = None"
        by (auto simp add: set_leftCols_def set_middleCols_def MatXs_def)
      then show ?thesis
        using Some AB False
        by (auto simp add: System_getOcs2Jacobian_def System_getOcs2Jacobian_alloc_def Let_def pre)
    next
      case True
      let ?M = "\<lparr>rows = rows Jq, columns = columns A @ drop ?rx (columns ?X)\<rparr>"
      have x: "set_leftCols ?X ?rx A = Some ?M"
        using True by (simp add: set_leftCols_def set_middleCols_def MatXs_def cols_def opt_x_def)
      have u: "set_leftCols ?U ?ru B = Some \<lparr>rows = rows Jq, columns = columns B\<rparr>"
        using True by (simp add: set_leftCols_def set_middleCols_def MatXs_def cols_def opt_u_def)
      have m: "rows ?M = rows Jq" "?rx + ?n * 9 \<le> cols ?M" "take ?rx (columns ?M) = columns A"
        "drop (?rx + ?n * 9) (columns ?M) = []"
        using True by (simp_all add: cols_def MatXs_def opt_x_def)
      note loop = obstacle_loop_mat [OF a assms(4) m(1) m(2), of uninit, unfolded m(3) m(4) append_Nil2]
      show ?thesis
        using Some AB True
        by (simp add: System_getOcs2Jacobian_def System_getOcs2Jacobian_alloc_def Let_def pre x u loop)
    qed
  qed
qed

lemma concat_blocks_length:
  "(\<And>j. j < n \<Longrightarrow> length (f j) = w) \<Longrightarrow> length (concat (map f [0..<n])) = n * w"
  by (induction n) simp_all

lemma concat_blocks_take_drop:
  assumes "\<And>j. j < n \<Longrightarrow> length (f j) = w" and "i < n"
  shows "take w (drop (i * w) (concat (map f [0..<n]))) = f i"
  using assms
proof (induction n)
  case 0
  then show ?case by simp
next
  case (Suc n)
  have len: "length (concat (map f [0..<n])) = n * w"
    using Suc.prems(1) by (intro concat_blocks_length) simp
  show ?case
  proof (cases "i < n")
    case True
    then have "Suc i * w \<le> n * w" by (intro mult_le_mono1) simp
    then have "w \<le> n * w - i * w" by simp
    moreover have "take w (drop (i * w) (concat (map f [0..<n]))) = f i"
      using Suc.IH Suc.prems(1) True by simp
    ultimately show ?thesis using len by simp
  next
    case False
    then have "i = n" using Suc.prems(2) by simp
    then show ?thesis using len Suc.prems(1) [of n] by simp
  qed
qed

lemma block_of_assembled:
  assumes "\<And>j. j < n \<Longrightarrow> length (f j) = w" and "i < n"
  shows "take w (drop (length r + i * w) (r @ concat (map f [0..<n]))) = f i"
  using concat_blocks_take_drop [OF assms] by simp

text \<open>
  C6: the scenario with robot dimensions \<open>q = 1\<close>, \<open>v = 1\<close>, \<open>x = 2\<close>, \<open>u = 1\<close>, one
  obstacle and a triple-integrator robot mapping (position \<open>head(1)\<close>, velocity
  \<open>segment(1, 1)\<close>, acceleration \<open>tail(1)\<close>). On the state
  \<open>[10, 20, 1, 2, 3, 4, 5, 6, 7, 8, 9]\<close> the position is \<open>[10, 1, 2, 3]\<close> and, with the input
  \<open>[0]\<close>, the velocity is \<open>[20, 4, 5, 6]\<close> and the acceleration \<open>[20, 7, 8, 9]\<close>, whatever the
  fresh storage held.
\<close>

theorem system_scenario_one_obstacle:
  "System_getPinocchioJointPosition uninit
     (SystemPinocchioMapping (TripleIntegratorPinocchioMapping uninit')
        \<lparr>robot = \<lparr>dim_q = 1, dim_v = 1, dim_x = 2, dim_u = 1\<rparr>, dim_o = 1\<rparr>)
     [10, 20, 1, 2, 3, 4, 5, 6, 7, 8, 9 :: int] = Some [10, 1, 2, 3]
   \<and> System_getPinocchioJointVelocity uninit
     (SystemPinocchioMapping (TripleIntegratorPinocchioMapping uninit')
        \<lparr>robot = \<lparr>dim_q = 1, dim_v = 1, dim_x = 2, dim_u = 1\<rparr>, dim_o = 1\<rparr>)
     [10, 20, 1, 2, 3, 4, 5, 6, 7, 8, 9 :: int] [0] = Some [20, 4, 5, 6]
   \<and> System_getPinocchioJointAcceleration uninit
     (SystemPinocchioMapping (TripleIntegratorPinocchioMapping uninit')
        \<lparr>robot = \<lparr>dim_q = 1, dim_v = 1, dim_x = 2, dim_u = 1\<rparr>, dim_o = 1\<rparr>)
     [10, 20, 1, 2, 3, 4, 5, 6, 7, 8, 9 :: int] [0] = Some [20, 7, 8, 9]"
  by (simp add: System_getPinocchioJointPosition_eq System_getPinocchioJointVelocity_eq
      System_getPinocchioJointAcceleration_eq SystemPinocchioMapping_def opt_x_def
      TripleIntegratorPinocchioMapping_def TripleIntegrator_getPinocchioJointPosition_def
      TripleIntegrator_getPinocchioJointVelocity_def TripleIntegrator_getPinocchioJointAcceleration_def
      head_def segment_def tail_def)

section \<open>The claims on SystemPinocchioMapping\<close>

lemma example_system_simps:
  "dims (example_system n) = \<lparr>robot = \<lparr>dim_q = 1, dim_v = 1, dim_x = 3, dim_u = 1\<rparr>, dim_o = n\<rparr>"
  "getPinocchioJointPosition (robot_mapping (example_system n)) s = head s 1"
  "getPinocchioJointVelocity (robot_mapping (example_system n)) s u = segment s 1 1"
  "getPinocchioJointAcceleration (robot_mapping (example_system n)) s u = tail s 1"
  "getOcs2Jacobian (robot_mapping (example_system n)) s Jq Jv =
     (if rows Jv = rows Jq
      then Some (\<lparr>rows = rows Jq, columns = columns Jq @ columns Jv @ [replicate (rows Jq) 0]\<rparr>,
                 \<lparr>rows = rows Jq, columns = [replicate (rows Jq) 0]\<rparr>)
      else None)"
  by (simp_all add: example_system_def SystemPinocchioMapping_def TripleIntegratorPinocchioMapping_def
      TripleIntegrator_getPinocchioJointPosition_def TripleIntegrator_getPinocchioJointVelocity_def
      TripleIntegrator_getPinocchioJointAcceleration_def TripleIntegrator_getOcs2Jacobian_eq MatXs_Zero_def)

lemma filter_upt_single:
  assumes "k < n" and "\<And>i. i < n \<Longrightarrow> P i \<longleftrightarrow> i = k"
  shows "filter P [0..<n] = [k]"
proof -
  have "filter P [0..<n] = filter (\<lambda>i. i = k) [0..<n]"
    by (rule filter_cong) (use assms(2) in auto)
  also have "\<dots> = [k]" using assms(1)
    by (induction n) auto
  finally show ?thesis .
qed

lemma filter_upt_none:
  assumes "\<And>i. i < n \<Longrightarrow> \<not> P i"
  shows "filter P [0..<n] = []"
  using assms by (auto simp add: filter_empty_conv)

lemma writes_partition:
  assumes "c < opt_x d"
  shows "length (filter (\<lambda>(start, n). start \<le> c \<and> c < start + n) (System_getOcs2Jacobian_writes d)) = 1"
proof (cases "c < dim_x (robot d)")
  case True
  have "filter (\<lambda>i. dim_x (robot d) + i * 9 \<le> c \<and> c < dim_x (robot d) + i * 9 + 9) [0..<dim_o d] = []"
    by (rule filter_upt_none) (use True in simp)
  then show ?thesis
    using True by (simp add: System_getOcs2Jacobian_writes_def filter_map comp_def)
next
  case False
  let ?k = "(c - dim_x (robot d)) div 9"
  have k: "?k < dim_o d" using assms False by (simp add: opt_x_def)
  have "filter (\<lambda>i. dim_x (robot d) + i * 9 \<le> c \<and> c < dim_x (robot d) + i * 9 + 9) [0..<dim_o d] = [?k]"
    by (rule filter_upt_single [OF k]) (use False in arith)
  then show ?thesis
    using False by (simp add: System_getOcs2Jacobian_writes_def filter_map comp_def)
qed

text \<open>
  C1: for a state of length \<open>x()\<close>, \<open>Jq_pin\<close> of \<open>q()\<close> columns and \<open>Jv_pin\<close> of \<open>v()\<close> columns
  with the same rows, and a robot mapping that returns Jacobians of the shapes
  \<open>(rows, robot.x)\<close> and \<open>(rows, robot.u)\<close> for the robot's part of the arguments, the system
  mapping's \<^verbatim>\<open>getOcs2Jacobian\<close> returns \<open>(dfdx, dfdu)\<close> with \<open>x() = robot.x + 9 o\<close> and
  \<open>u() = robot.u\<close> columns. The leftmost \<open>robot.x\<close> columns of \<open>dfdx\<close> and the leftmost
  \<open>robot.u\<close> columns of \<open>dfdu\<close> are the robot's results, the columns
  \<open>[robot.x + 9 i, robot.x + 9 i + 9)\<close> of \<open>dfdx\<close> are the obstacle mapping's \<open>dfdx\<close> for the
  state slice and the Jacobian columns of obstacle \<open>i\<close>, and every column of \<open>dfdx\<close> lies
  in exactly one of the assigned blocks.
\<close>

theorem system_getOcs2Jacobian_blocks:
  assumes "length state = opt_x (dims this)"
    and "cols Jq_pin = opt_q (dims this)"
    and "cols Jv_pin = opt_v (dims this)"
    and "rows Jv_pin = rows Jq_pin"
    and "head state (dim_x (robot (dims this))) = Some x_robot"
    and "leftCols Jq_pin (dim_q (robot (dims this))) = Some Jq_pin_robot"
    and "leftCols Jv_pin (dim_v (robot (dims this))) = Some Jv_pin_robot"
    and "getOcs2Jacobian (robot_mapping this) x_robot Jq_pin_robot Jv_pin_robot =
           Some (dfdx_robot, dfdu_robot)"
    and "rows dfdx_robot = rows Jq_pin \<and> cols dfdx_robot = dim_x (robot (dims this))"
    and "rows dfdu_robot = rows Jq_pin \<and> cols dfdu_robot = dim_u (robot (dims this))"
  shows "\<exists>dfdx dfdu.
           System_getOcs2Jacobian uninit this state Jq_pin Jv_pin = Some (dfdx, dfdu)
         \<and> rows dfdx = rows Jq_pin \<and> cols dfdx = opt_x (dims this)
         \<and> rows dfdu = rows Jq_pin \<and> cols dfdu = opt_u (dims this)
         \<and> opt_x (dims this) = dim_x (robot (dims this)) + 9 * dim_o (dims this)
         \<and> opt_u (dims this) = dim_u (robot (dims this))
         \<and> leftCols dfdx (dim_x (robot (dims this))) = Some dfdx_robot
         \<and> leftCols dfdu (dim_u (robot (dims this))) = Some dfdu_robot
         \<and> (\<forall>i<dim_o (dims this). \<exists>x_obs Jq_pin_obs Jv_pin_obs dfdx_obs dfdu_obs.
               segment state (dim_x (robot (dims this)) + 9 * i) 9 = Some x_obs
             \<and> middleCols Jq_pin (dim_q (robot (dims this)) + 3 * i) 3 = Some Jq_pin_obs
             \<and> middleCols Jv_pin (dim_v (robot (dims this)) + 3 * i) 3 = Some Jv_pin_obs
             \<and> getOcs2Jacobian (OBSTACLE_PINOCCHIO_MAPPING uninit) x_obs Jq_pin_obs Jv_pin_obs =
                 Some (dfdx_obs, dfdu_obs)
             \<and> middleCols dfdx (dim_x (robot (dims this)) + 9 * i) 9 = Some dfdx_obs)
         \<and> (\<forall>c<cols dfdx.
               length (filter (\<lambda>(start, n). start \<le> c \<and> c < start + n)
                         (System_getOcs2Jacobian_writes (dims this))) = 1)"
proof -
  let ?rx = "dim_x (robot (dims this))" and ?rq = "dim_q (robot (dims this))"
  let ?rv = "dim_v (robot (dims this))" and ?ru = "dim_u (robot (dims this))"
  let ?n = "dim_o (dims this)"
  let ?cq = "\<lambda>i. take 3 (drop (?rq + i * 3) (columns Jq_pin))"
  let ?cv = "\<lambda>i. take 3 (drop (?rv + i * 3) (columns Jv_pin))"
  let ?f = "\<lambda>i. ?cq i @ ?cv i @ replicate 3 (replicate (rows Jq_pin) 0)"
  let ?X = "\<lparr>rows = rows Jq_pin, columns = columns dfdx_robot @ concat (map ?f [0..<?n])\<rparr>"
  let ?U = "\<lparr>rows = rows Jq_pin, columns = columns dfdu_robot\<rparr>"
  have sz: "opt_x (dims this) \<le> length state" "opt_q (dims this) \<le> cols Jq_pin"
    "opt_v (dims this) \<le> cols Jv_pin"
    using assms(1-3) by simp_all
  have xr: "x_robot = take ?rx state"
    using assms(5) by (auto simp add: head_def split: if_splits)
  have qr: "Jq_pin_robot = \<lparr>rows = rows Jq_pin, columns = take ?rq (columns Jq_pin)\<rparr>"
    using assms(6) by (auto simp add: leftCols_def middleCols_def split: if_splits)
  have vr: "Jv_pin_robot = \<lparr>rows = rows Jv_pin, columns = take ?rv (columns Jv_pin)\<rparr>"
    using assms(7) by (auto simp add: leftCols_def middleCols_def split: if_splits)
  have res: "System_getOcs2Jacobian uninit this state Jq_pin Jv_pin = Some (?X, ?U)"
    using assms(8) assms(9,10) System_getOcs2Jacobian_eq [OF sz, of uninit] assms(4)
    by (simp add: xr qr vr)
  have lq: "length (?cq i) = 3" and lv: "length (?cv i) = 3" if "i < ?n" for i
  proof -
    have "?rq + i * 3 + 3 \<le> length (columns Jq_pin)" "?rv + i * 3 + 3 \<le> length (columns Jv_pin)"
      using that assms(2,3) by (simp_all add: cols_def opt_q_def opt_v_def)
    then show "length (?cq i) = 3" and "length (?cv i) = 3" by simp_all
  qed
  have lf: "length (?f i) = 9" if "i < ?n" for i
    using lq [OF that] lv [OF that] by simp
  have cx: "cols ?X = opt_x (dims this)"
    using concat_blocks_length [of ?n ?f 9] lf assms(9) by (simp add: cols_def opt_x_def)
  have cu: "cols ?U = opt_u (dims this)"
    using assms(10) by (simp add: cols_def opt_u_def)
  have lx: "leftCols ?X ?rx = Some dfdx_robot"
    using assms(9) by (simp add: leftCols_def middleCols_def cols_def)
  have lu: "leftCols ?U ?ru = Some dfdu_robot"
    using assms(10) by (simp add: leftCols_def middleCols_def cols_def)
  have obs: "\<exists>x_obs Jq_pin_obs Jv_pin_obs dfdx_obs dfdu_obs.
               segment state (?rx + 9 * i) 9 = Some x_obs
             \<and> middleCols Jq_pin (?rq + 3 * i) 3 = Some Jq_pin_obs
             \<and> middleCols Jv_pin (?rv + 3 * i) 3 = Some Jv_pin_obs
             \<and> getOcs2Jacobian (OBSTACLE_PINOCCHIO_MAPPING uninit) x_obs Jq_pin_obs Jv_pin_obs =
                 Some (dfdx_obs, dfdu_obs)
             \<and> middleCols ?X (?rx + 9 * i) 9 = Some dfdx_obs" if "i < ?n" for i
  proof -
    have r: "?rx + i * 9 + 9 \<le> length state" "?rq + i * 3 + 3 \<le> cols Jq_pin"
      "?rv + i * 3 + 3 \<le> cols Jv_pin" "?rx + i * 9 + 9 \<le> cols ?X"
      using that assms(1-3) cx by (simp_all add: opt_x_def opt_q_def opt_v_def)
    have s: "segment state (?rx + 9 * i) 9 = Some (take 9 (drop (?rx + i * 9) state))"
      using r(1) by (simp add: segment_def mult.commute)
    have q: "middleCols Jq_pin (?rq + 3 * i) 3 = Some \<lparr>rows = rows Jq_pin, columns = ?cq i\<rparr>"
      using r(2) by (simp add: middleCols_def mult.commute)
    have v: "middleCols Jv_pin (?rv + 3 * i) 3 = Some \<lparr>rows = rows Jv_pin, columns = ?cv i\<rparr>"
      using r(3) by (simp add: middleCols_def mult.commute)
    have j: "getOcs2Jacobian (OBSTACLE_PINOCCHIO_MAPPING uninit) (take 9 (drop (?rx + i * 9) state))
               \<lparr>rows = rows Jq_pin, columns = ?cq i\<rparr> \<lparr>rows = rows Jv_pin, columns = ?cv i\<rparr> =
             Some (\<lparr>rows = rows Jq_pin, columns = ?f i\<rparr>, MatXs_Zero (rows Jq_pin) 0)"
      using assms(4) by (simp add: OBSTACLE_getOcs2Jacobian)
    have "take 9 (drop (length (columns dfdx_robot) + i * 9)
                    (columns dfdx_robot @ concat (map ?f [0..<?n]))) = ?f i"
      by (rule block_of_assembled) (use lf that in simp_all)
    then have m: "middleCols ?X (?rx + 9 * i) 9 = Some \<lparr>rows = rows Jq_pin, columns = ?f i\<rparr>"
      using r(4) assms(9) by (simp add: middleCols_def cols_def mult.commute)
    show ?thesis using s q v j m by blast
  qed
  have part: "length (filter (\<lambda>(start, n). start \<le> c \<and> c < start + n)
                 (System_getOcs2Jacobian_writes (dims this))) = 1" if "c < cols ?X" for c
    using that cx writes_partition by simp
  have tot: "opt_x (dims this) = ?rx + 9 * ?n" "opt_u (dims this) = ?ru"
    by (simp_all add: opt_x_def opt_u_def)
  have rw: "rows ?X = rows Jq_pin" "rows ?U = rows Jq_pin" by simp_all
  show ?thesis
    using res rw cx cu tot lx lu obs part by blast
qed

theorem system_getOcs2Jacobian_blocks_witness:
  "\<exists>dfdx dfdu.
           System_getOcs2Jacobian example_uninit (example_system 2) example_state example_Jq example_Jv =
             Some (dfdx, dfdu)
         \<and> rows dfdx = rows example_Jq \<and> cols dfdx = opt_x (dims (example_system 2))
         \<and> rows dfdu = rows example_Jq \<and> cols dfdu = opt_u (dims (example_system 2))
         \<and> opt_x (dims (example_system 2)) =
             dim_x (robot (dims (example_system 2))) + 9 * dim_o (dims (example_system 2))
         \<and> opt_u (dims (example_system 2)) = dim_u (robot (dims (example_system 2)))
         \<and> leftCols dfdx (dim_x (robot (dims (example_system 2)))) =
             Some \<lparr>rows = 1, columns = [[1], [-1], [0]]\<rparr>
         \<and> leftCols dfdu (dim_u (robot (dims (example_system 2)))) =
             Some \<lparr>rows = 1, columns = [[0]]\<rparr>
         \<and> (\<forall>i<dim_o (dims (example_system 2)). \<exists>x_obs Jq_pin_obs Jv_pin_obs dfdx_obs dfdu_obs.
               segment example_state (dim_x (robot (dims (example_system 2))) + 9 * i) 9 = Some x_obs
             \<and> middleCols example_Jq (dim_q (robot (dims (example_system 2))) + 3 * i) 3 = Some Jq_pin_obs
             \<and> middleCols example_Jv (dim_v (robot (dims (example_system 2))) + 3 * i) 3 = Some Jv_pin_obs
             \<and> getOcs2Jacobian (OBSTACLE_PINOCCHIO_MAPPING example_uninit) x_obs Jq_pin_obs Jv_pin_obs =
                 Some (dfdx_obs, dfdu_obs)
             \<and> middleCols dfdx (dim_x (robot (dims (example_system 2))) + 9 * i) 9 = Some dfdx_obs)
         \<and> (\<forall>c<cols dfdx.
               length (filter (\<lambda>(start, n). start \<le> c \<and> c < start + n)
                         (System_getOcs2Jacobian_writes (dims (example_system 2)))) = 1)"
  by (rule system_getOcs2Jacobian_blocks [where x_robot = "[10, 20, 30]"
        and Jq_pin_robot = "\<lparr>rows = 1, columns = [[1]]\<rparr>"
        and Jv_pin_robot = "\<lparr>rows = 1, columns = [[-1]]\<rparr>"])
     (simp_all add: example_system_simps example_state_def example_Jq_def example_Jv_def
        opt_x_def opt_q_def opt_v_def cols_def head_def leftCols_def middleCols_def)

text \<open>
  C3: without obstacles, on a state of length \<open>robot.x\<close>, an input of length \<open>robot.u\<close> and
  Jacobians of \<open>robot.q\<close> and \<open>robot.v\<close> columns, each of the four operations of the system
  mapping returns what the robot mapping's operation returns on the same arguments (and
  fails when it fails), for a robot mapping whose results have the sizes that the robot's
  dimensions prescribe.
\<close>

theorem system_without_obstacles:
  assumes "dim_o (dims this) = 0"
    and "length state = dim_x (robot (dims this))"
    and "length input = dim_u (robot (dims this))"
    and "cols Jq_pin = dim_q (robot (dims this))"
    and "cols Jv_pin = dim_v (robot (dims this))"
    and "\<forall>q_robot. getPinocchioJointPosition (robot_mapping this) state = Some q_robot
           \<longrightarrow> length q_robot = dim_q (robot (dims this))"
    and "\<forall>v_robot. getPinocchioJointVelocity (robot_mapping this) state input = Some v_robot
           \<longrightarrow> length v_robot = dim_v (robot (dims this))"
    and "\<forall>a_robot. getPinocchioJointAcceleration (robot_mapping this) state input = Some a_robot
           \<longrightarrow> length a_robot = dim_v (robot (dims this))"
    and "\<forall>dfdx_robot dfdu_robot.
           getOcs2Jacobian (robot_mapping this) state Jq_pin Jv_pin = Some (dfdx_robot, dfdu_robot)
           \<longrightarrow> rows dfdx_robot = rows Jq_pin \<and> cols dfdx_robot = dim_x (robot (dims this))
             \<and> rows dfdu_robot = rows Jq_pin \<and> cols dfdu_robot = dim_u (robot (dims this))"
  shows "System_getPinocchioJointPosition uninit this state =
           getPinocchioJointPosition (robot_mapping this) state
         \<and> System_getPinocchioJointVelocity uninit this state input =
           getPinocchioJointVelocity (robot_mapping this) state input
         \<and> System_getPinocchioJointAcceleration uninit this state input =
           getPinocchioJointAcceleration (robot_mapping this) state input
         \<and> System_getOcs2Jacobian uninit this state Jq_pin Jv_pin =
           getOcs2Jacobian (robot_mapping this) state Jq_pin Jv_pin"
proof -
  have sz: "opt_x (dims this) \<le> length state" "dim_u (robot (dims this)) \<le> length input"
    "opt_q (dims this) \<le> cols Jq_pin" "opt_v (dims this) \<le> cols Jv_pin"
    using assms(1-5) by (simp_all add: opt_x_def opt_q_def opt_v_def)
  have p: "System_getPinocchioJointPosition uninit this state =
           getPinocchioJointPosition (robot_mapping this) state"
    using assms(1,2,6) by (simp add: System_getPinocchioJointPosition_eq [OF sz(1)] split: option.splits)
  have v: "System_getPinocchioJointVelocity uninit this state input =
           getPinocchioJointVelocity (robot_mapping this) state input"
    using assms(1,2,3,7)
    by (simp add: System_getPinocchioJointVelocity_eq [OF sz(1,2)] split: option.splits)
  have a: "System_getPinocchioJointAcceleration uninit this state input =
           getPinocchioJointAcceleration (robot_mapping this) state input"
    using assms(1,2,3,8)
    by (simp add: System_getPinocchioJointAcceleration_eq [OF sz(1,2)] split: option.splits)
  have q: "\<lparr>rows = rows Jq_pin, columns = take (dim_q (robot (dims this))) (columns Jq_pin)\<rparr> = Jq_pin"
    "\<lparr>rows = rows Jv_pin, columns = take (dim_v (robot (dims this))) (columns Jv_pin)\<rparr> = Jv_pin"
    using assms(4,5) by (simp_all add: cols_def)
  have e: "System_getOcs2Jacobian uninit this state Jq_pin Jv_pin =
     (case getOcs2Jacobian (robot_mapping this) state Jq_pin Jv_pin of
        None \<Rightarrow> None
      | Some (dfdx_robot, dfdu_robot) \<Rightarrow>
          if rows dfdx_robot = rows Jq_pin \<and> cols dfdx_robot = dim_x (robot (dims this))
             \<and> rows dfdu_robot = rows Jq_pin \<and> cols dfdu_robot = dim_u (robot (dims this))
          then Some (\<lparr>rows = rows Jq_pin, columns = columns dfdx_robot\<rparr>,
                     \<lparr>rows = rows Jq_pin, columns = columns dfdu_robot\<rparr>)
          else None)"
    using System_getOcs2Jacobian_eq [OF sz(1,3,4), of uninit] assms(1,2)
    by (simp add: q split: option.splits)
  have j: "System_getOcs2Jacobian uninit this state Jq_pin Jv_pin =
           getOcs2Jacobian (robot_mapping this) state Jq_pin Jv_pin"
  proof (cases "getOcs2Jacobian (robot_mapping this) state Jq_pin Jv_pin")
    case None
    then show ?thesis by (simp add: e)
  next
    case (Some AB)
    obtain A B where AB: "AB = (A, B)" by (cases AB)
    have "rows A = rows Jq_pin \<and> cols A = dim_x (robot (dims this))
        \<and> rows B = rows Jq_pin \<and> cols B = dim_u (robot (dims this))"
      using assms(9) Some AB by blast
    moreover from this have "\<lparr>rows = rows Jq_pin, columns = columns A\<rparr> = A"
      "\<lparr>rows = rows Jq_pin, columns = columns B\<rparr> = B" by simp_all
    ultimately show ?thesis using Some AB by (simp add: e)
  qed
  show ?thesis using p v a j by simp
qed

theorem system_without_obstacles_witness:
  "System_getPinocchioJointPosition example_uninit (example_system 0) [10, 20, 30] =
           getPinocchioJointPosition (robot_mapping (example_system 0)) [10, 20, 30]
         \<and> System_getPinocchioJointVelocity example_uninit (example_system 0) [10, 20, 30] [5] =
           getPinocchioJointVelocity (robot_mapping (example_system 0)) [10, 20, 30] [5]
         \<and> System_getPinocchioJointAcceleration example_uninit (example_system 0) [10, 20, 30] [5] =
           getPinocchioJointAcceleration (robot_mapping (example_system 0)) [10, 20, 30] [5]
         \<and> System_getOcs2Jacobian example_uninit (example_system 0) [10, 20, 30]
             \<lparr>rows = 1, columns = [[1]]\<rparr> \<lparr>rows = 1, columns = [[-1]]\<rparr> =
           getOcs2Jacobian (robot_mapping (example_system 0)) [10, 20, 30]
             \<lparr>rows = 1, columns = [[1]]\<rparr> \<lparr>rows = 1, columns = [[-1]]\<rparr>"
  by (rule system_without_obstacles)
     (simp_all add: example_system_simps cols_def head_def segment_def tail_def)

text \<open>
  C5: for a state of length \<open>x()\<close> and an input of length \<open>u()\<close> the system mapping's velocity
  has length \<open>robot.v + 3 o\<close>; its first \<open>robot.v\<close> entries are the robot mapping's velocity
  for the first \<open>robot.x\<close> entries of the state and the first \<open>robot.u\<close> entries of the
  input, and its block \<open>i\<close> of three entries at offset \<open>robot.v + 3 i\<close> is the obstacle
  mapping's velocity for the nine state entries of obstacle \<open>i\<close> with a zero vector of
  length three as input. The acceleration has the same structure. The robot mapping is
  one whose velocity and acceleration have length \<open>robot.v\<close>.
\<close>

theorem system_velocity_acceleration_blocks:
  assumes "length state = opt_x (dims this)"
    and "length input = opt_u (dims this)"
    and "head state (dim_x (robot (dims this))) = Some x_robot"
    and "head input (dim_u (robot (dims this))) = Some u_robot"
    and "getPinocchioJointVelocity (robot_mapping this) x_robot u_robot = Some v_robot"
    and "length v_robot = dim_v (robot (dims this))"
    and "getPinocchioJointAcceleration (robot_mapping this) x_robot u_robot = Some a_robot"
    and "length a_robot = dim_v (robot (dims this))"
  shows "\<exists>v_pin a_pin.
           System_getPinocchioJointVelocity uninit this state input = Some v_pin
         \<and> length v_pin = dim_v (robot (dims this)) + 3 * dim_o (dims this)
         \<and> head v_pin (dim_v (robot (dims this))) = Some v_robot
         \<and> (\<forall>i<dim_o (dims this). \<exists>x_obs v_obs.
               segment state (dim_x (robot (dims this)) + 9 * i) 9 = Some x_obs
             \<and> getPinocchioJointVelocity (OBSTACLE_PINOCCHIO_MAPPING uninit) x_obs (VecXs_Zero 3) = Some v_obs
             \<and> segment v_pin (dim_v (robot (dims this)) + 3 * i) 3 = Some v_obs)
         \<and> System_getPinocchioJointAcceleration uninit this state input = Some a_pin
         \<and> length a_pin = dim_v (robot (dims this)) + 3 * dim_o (dims this)
         \<and> head a_pin (dim_v (robot (dims this))) = Some a_robot
         \<and> (\<forall>i<dim_o (dims this). \<exists>x_obs a_obs.
               segment state (dim_x (robot (dims this)) + 9 * i) 9 = Some x_obs
             \<and> getPinocchioJointAcceleration (OBSTACLE_PINOCCHIO_MAPPING uninit) x_obs (VecXs_Zero 3) = Some a_obs
             \<and> segment a_pin (dim_v (robot (dims this)) + 3 * i) 3 = Some a_obs)"
proof -
  let ?rx = "dim_x (robot (dims this))" and ?rv = "dim_v (robot (dims this))"
  let ?ru = "dim_u (robot (dims this))" and ?n = "dim_o (dims this)"
  let ?blk = "\<lambda>i. take 9 (drop (?rx + i * 9) state)"
  let ?fv = "\<lambda>i. take 3 (drop 3 (?blk i))" and ?fa = "\<lambda>i. drop 6 (?blk i)"
  let ?v = "v_robot @ concat (map ?fv [0..<?n])" and ?a = "a_robot @ concat (map ?fa [0..<?n])"
  have sz: "opt_x (dims this) \<le> length state" "?ru \<le> length input"
    using assms(1,2) by (simp_all add: opt_u_def)
  have xr: "x_robot = take ?rx state" and ur: "u_robot = take ?ru input"
    using assms(3,4) by (auto simp add: head_def split: if_splits)
  have blk: "length (?blk i) = 9" if "i < ?n" for i
  proof -
    have "?rx + i * 9 + 9 \<le> length state" using that assms(1) by (simp add: opt_x_def)
    then show ?thesis by simp
  qed
  have lv: "length (?fv i) = 3" and la: "length (?fa i) = 3" if "i < ?n" for i
    using blk [OF that] by simp_all
  have v: "System_getPinocchioJointVelocity uninit this state input = Some ?v"
    using assms(5,6) by (simp add: System_getPinocchioJointVelocity_eq [OF sz] xr ur)
  have a: "System_getPinocchioJointAcceleration uninit this state input = Some ?a"
    using assms(7,8) by (simp add: System_getPinocchioJointAcceleration_eq [OF sz] xr ur)
  have lenv: "length ?v = ?rv + 3 * ?n"
    using concat_blocks_length [of ?n ?fv 3] lv assms(6) by simp
  have lena: "length ?a = ?rv + 3 * ?n"
    using concat_blocks_length [of ?n ?fa 3] la assms(8) by simp
  have hv: "head ?v ?rv = Some v_robot" and ha: "head ?a ?rv = Some a_robot"
    using assms(6,8) by (simp_all add: head_def)
  have seg: "segment state (?rx + 9 * i) 9 = Some (?blk i)" if "i < ?n" for i
  proof -
    have "?rx + i * 9 + 9 \<le> length state" using that assms(1) by (simp add: opt_x_def)
    then show ?thesis by (simp add: segment_def mult.commute)
  qed
  have ov: "getPinocchioJointVelocity (OBSTACLE_PINOCCHIO_MAPPING uninit) (?blk i) (VecXs_Zero 3) = Some (?fv i)"
    and oa: "getPinocchioJointAcceleration (OBSTACLE_PINOCCHIO_MAPPING uninit) (?blk i) (VecXs_Zero 3) = Some (?fa i)"
    if "i < ?n" for i
    using blk [OF that]
    by (simp_all add: OBSTACLE_getPinocchioJointVelocity OBSTACLE_getPinocchioJointAcceleration
        segment_def tail_def)
  have sv: "segment ?v (?rv + 3 * i) 3 = Some (?fv i)" if "i < ?n" for i
  proof -
    have "take 3 (drop (length v_robot + i * 3) ?v) = ?fv i"
      by (rule block_of_assembled) (use lv that in simp_all)
    moreover have "?rv + 3 * i + 3 \<le> length ?v" using lenv that by simp
    ultimately show ?thesis using assms(6) by (simp add: segment_def mult.commute)
  qed
  have sa: "segment ?a (?rv + 3 * i) 3 = Some (?fa i)" if "i < ?n" for i
  proof -
    have "take 3 (drop (length a_robot + i * 3) ?a) = ?fa i"
      by (rule block_of_assembled) (use la that in simp_all)
    moreover have "?rv + 3 * i + 3 \<le> length ?a" using lena that by simp
    ultimately show ?thesis using assms(8) by (simp add: segment_def mult.commute)
  qed
  show ?thesis
    using v a lenv lena hv ha seg ov oa sv sa by blast
qed

theorem system_velocity_acceleration_blocks_witness:
  "\<exists>v_pin a_pin.
           System_getPinocchioJointVelocity example_uninit (example_system 2) example_state [5] = Some v_pin
         \<and> length v_pin = dim_v (robot (dims (example_system 2))) + 3 * dim_o (dims (example_system 2))
         \<and> head v_pin (dim_v (robot (dims (example_system 2)))) = Some [20]
         \<and> (\<forall>i<dim_o (dims (example_system 2)). \<exists>x_obs v_obs.
               segment example_state (dim_x (robot (dims (example_system 2))) + 9 * i) 9 = Some x_obs
             \<and> getPinocchioJointVelocity (OBSTACLE_PINOCCHIO_MAPPING example_uninit) x_obs (VecXs_Zero 3) = Some v_obs
             \<and> segment v_pin (dim_v (robot (dims (example_system 2))) + 3 * i) 3 = Some v_obs)
         \<and> System_getPinocchioJointAcceleration example_uninit (example_system 2) example_state [5] = Some a_pin
         \<and> length a_pin = dim_v (robot (dims (example_system 2))) + 3 * dim_o (dims (example_system 2))
         \<and> head a_pin (dim_v (robot (dims (example_system 2)))) = Some [30]
         \<and> (\<forall>i<dim_o (dims (example_system 2)). \<exists>x_obs a_obs.
               segment example_state (dim_x (robot (dims (example_system 2))) + 9 * i) 9 = Some x_obs
             \<and> getPinocchioJointAcceleration (OBSTACLE_PINOCCHIO_MAPPING example_uninit) x_obs (VecXs_Zero 3) = Some a_obs
             \<and> segment a_pin (dim_v (robot (dims (example_system 2))) + 3 * i) 3 = Some a_obs)"
  by (rule system_velocity_acceleration_blocks [where x_robot = "[10, 20, 30]" and u_robot = "[5]"])
     (simp_all add: example_system_simps example_state_def opt_x_def opt_u_def head_def segment_def tail_def)

lemma prefix_agree_cases:
  assumes "take n a = take n b"
  shows "a = b \<or> (n \<le> length a \<and> n \<le> length b)"
proof (cases "n \<le> length a")
  case True
  then have "length (take n b) = n" using assms by (metis length_take min.absorb2)
  then show ?thesis using True by (simp add: min_def split: if_splits)
next
  case False
  then have a: "take n a = a" by simp
  then have "length (take n b) = length a" using assms by simp
  then have "length b = length a" using False by (simp add: min_def split: if_splits)
  then have "take n b = b" using False by simp
  then show ?thesis using a assms by simp
qed

lemma head_prefix:
  assumes "take n a = take n b" and "m \<le> n"
  shows "head a m = head b m"
proof -
  have "take m (take n a) = take m (take n b)" using assms(1) by simp
  then have "take m a = take m b" using assms(2) by (simp add: min_def)
  then show ?thesis using prefix_agree_cases [OF assms(1)] assms(2) by (auto simp add: head_def)
qed

lemma segment_prefix:
  assumes "take n a = take n b" and "s + k \<le> n"
  shows "segment a s k = segment b s k"
proof -
  have "take (s + k) (take n a) = take (s + k) (take n b)" using assms(1) by simp
  then have "take (s + k) a = take (s + k) b" using assms(2) by (simp add: min_def)
  then have "drop s (take (s + k) a) = drop s (take (s + k) b)" by simp
  then have "take k (drop s a) = take k (drop s b)" by (simp add: drop_take)
  then show ?thesis using prefix_agree_cases [OF assms(1)] assms(2) by (auto simp add: segment_def)
qed

text \<open>
  C10: the operations of the system mapping read only the first \<open>x() = robot.x + 9 o\<close>
  entries of the state and the first \<open>robot.u\<close> entries of the input. Two states with the
  same first \<open>x()\<close> entries and two inputs with the same first \<open>robot.u\<close> entries, of any
  lengths, give the same position, velocity, acceleration and Jacobian pair.
\<close>

theorem system_reads_prefixes:
  assumes "take (opt_x (dims this)) state1 = take (opt_x (dims this)) state2"
    and "take (opt_u (dims this)) input1 = take (opt_u (dims this)) input2"
  shows "System_getPinocchioJointPosition uninit this state1 =
           System_getPinocchioJointPosition uninit this state2
         \<and> System_getPinocchioJointVelocity uninit this state1 input1 =
           System_getPinocchioJointVelocity uninit this state2 input2
         \<and> System_getPinocchioJointAcceleration uninit this state1 input1 =
           System_getPinocchioJointAcceleration uninit this state2 input2
         \<and> System_getOcs2Jacobian uninit this state1 Jq_pin Jv_pin =
           System_getOcs2Jacobian uninit this state2 Jq_pin Jv_pin"
proof -
  let ?rx = "dim_x (robot (dims this))" and ?n = "dim_o (dims this)"
  have h: "head state1 ?rx = head state2 ?rx"
    by (rule head_prefix [OF assms(1)]) (simp add: opt_x_def)
  have u: "head input1 (dim_u (robot (dims this))) = head input2 (dim_u (robot (dims this)))"
    by (rule head_prefix [OF assms(2)]) (simp add: opt_u_def)
  have s: "segment state1 (?rx + i * 9) 9 = segment state2 (?rx + i * 9) 9" if "i < ?n" for i
    by (rule segment_prefix [OF assms(1)]) (use that in \<open>simp add: opt_x_def\<close>)
  have loop: "for_loop 0 ?n (\<lambda>i acc. segment state1 (?rx + i * 9) 9 \<bind> f i acc) =
              for_loop 0 ?n (\<lambda>i acc. segment state2 (?rx + i * 9) 9 \<bind> f i acc)" for f :: "nat \<Rightarrow> 's \<Rightarrow> 'a list \<Rightarrow> 's option"
    by (rule ext, rule for_loop_cong_range) (simp add: s)
  show ?thesis
    unfolding System_getPinocchioJointPosition_def System_getPinocchioJointVelocity_def
      System_getPinocchioJointAcceleration_def System_getOcs2Jacobian_def Let_def h u
      loop [of "\<lambda>i q_pin x_obs. do {
             q_obs \<leftarrow> getPinocchioJointPosition (OBSTACLE_PINOCCHIO_MAPPING uninit) x_obs;
             set_segment q_pin (dim_q (robot (dims this)) + i * 3) 3 q_obs }"]
      loop [of "\<lambda>i v_pin x_obs. do {
             v_obs \<leftarrow> getPinocchioJointVelocity (OBSTACLE_PINOCCHIO_MAPPING uninit) x_obs (VecXs_Zero 3);
             set_segment v_pin (dim_v (robot (dims this)) + i * 3) 3 v_obs }"]
      loop [of "\<lambda>i a_pin x_obs. do {
             a_obs \<leftarrow> getPinocchioJointAcceleration (OBSTACLE_PINOCCHIO_MAPPING uninit) x_obs (VecXs_Zero 3);
             set_segment a_pin (dim_v (robot (dims this)) + i * 3) 3 a_obs }"]
      loop [of "\<lambda>i dfdx x_obs. do {
             Jq_pin_obs \<leftarrow> middleCols Jq_pin (dim_q (robot (dims this)) + i * 3) 3;
             Jv_pin_obs \<leftarrow> middleCols Jv_pin (dim_v (robot (dims this)) + i * 3) 3;
             (dfdx_obs, ignore) \<leftarrow>
               getOcs2Jacobian (OBSTACLE_PINOCCHIO_MAPPING uninit) x_obs Jq_pin_obs Jv_pin_obs;
             set_middleCols dfdx (dim_x (robot (dims this)) + i * 9) 9 dfdx_obs }"]
    by simp
qed

theorem system_reads_prefixes_witness:
  "System_getPinocchioJointPosition example_uninit (example_system 2) example_state =
           System_getPinocchioJointPosition example_uninit (example_system 2) (example_state @ [99, 98])
         \<and> System_getPinocchioJointVelocity example_uninit (example_system 2) example_state [5] =
           System_getPinocchioJointVelocity example_uninit (example_system 2) (example_state @ [99, 98]) [5, 77]
         \<and> System_getPinocchioJointAcceleration example_uninit (example_system 2) example_state [5] =
           System_getPinocchioJointAcceleration example_uninit (example_system 2) (example_state @ [99, 98]) [5, 77]
         \<and> System_getOcs2Jacobian example_uninit (example_system 2) example_state example_Jq example_Jv =
           System_getOcs2Jacobian example_uninit (example_system 2) (example_state @ [99, 98]) example_Jq example_Jv"
  by (rule system_reads_prefixes)
     (simp_all add: example_system_simps example_state_def opt_x_def opt_u_def)

lemma obstacle_loop_uninit:
  assumes "rows M1 = rows M2"
    and "cols M1 = rx + n * 9"
    and "cols M2 = rx + n * 9"
    and "take rx (columns M1) = take rx (columns M2)"
  shows "for_loop 0 n
           (\<lambda>i dfdx. do {
              x_obs \<leftarrow> segment state (rx + i * 9) 9;
              Jq_pin_obs \<leftarrow> middleCols Jq (rq + i * 3) 3;
              Jv_pin_obs \<leftarrow> middleCols Jv (rv + i * 3) 3;
              (dfdx_obs, ignore) \<leftarrow>
                getOcs2Jacobian (OBSTACLE_PINOCCHIO_MAPPING uninit1) x_obs Jq_pin_obs Jv_pin_obs;
              set_middleCols dfdx (rx + i * 9) 9 dfdx_obs
            }) M1 =
         for_loop 0 n
           (\<lambda>i dfdx. do {
              x_obs \<leftarrow> segment state (rx + i * 9) 9;
              Jq_pin_obs \<leftarrow> middleCols Jq (rq + i * 3) 3;
              Jv_pin_obs \<leftarrow> middleCols Jv (rv + i * 3) 3;
              (dfdx_obs, ignore) \<leftarrow>
                getOcs2Jacobian (OBSTACLE_PINOCCHIO_MAPPING uninit2) x_obs Jq_pin_obs Jv_pin_obs;
              set_middleCols dfdx (rx + i * 9) 9 dfdx_obs
            }) M2"
    (is "for_loop 0 n ?b1 M1 = for_loop 0 n ?b2 M2")
proof -
  let ?R = "\<lambda>(j::nat) (A::'a MatX) (B::'a MatX).
              rows A = rows B \<and> cols A = rx + n * 9 \<and> cols B = rx + n * 9
              \<and> take (rx + j * 9) (columns A) = take (rx + j * 9) (columns B)"
  have step: "rel_option (?R (Suc j)) (set_middleCols A (rx + j * 9) 9 D) (set_middleCols B (rx + j * 9) 9 D)"
    if "j < n" and "?R j A B" for j A B D
  proof (cases "rows D = rows A \<and> cols D = 9")
    case False
    then show ?thesis using that(2) by (auto simp add: set_middleCols_def)
  next
    case True
    have le: "rx + j * 9 + 9 \<le> rx + n * 9" using that(1) by simp
    then show ?thesis
      using True that(2) by (simp add: set_middleCols_def cols_def)
  qed
  have "rel_option (?R n) (for_loop 0 n ?b1 M1) (for_loop 0 n ?b2 M2)"
  proof (rule for_loop_rel [where R = ?R])
    show "?R 0 M1 M2" using assms by simp
    show "0 \<le> n" by simp
    fix j and A B :: "'a MatX"
    assume j: "j < n" and r: "?R j A B"
    show "rel_option (?R (Suc j)) (?b1 j A) (?b2 j B)"
    proof (cases "segment state (rx + j * 9) 9")
      case None
      then show ?thesis by simp
    next
      case s: (Some x_obs)
      show ?thesis
      proof (cases "middleCols Jq (rq + j * 3) 3")
        case None
        then show ?thesis using s by simp
      next
        case q: (Some Jq_obs)
        show ?thesis
        proof (cases "middleCols Jv (rv + j * 3) 3")
          case None
          then show ?thesis using s q by simp
        next
          case v: (Some Jv_obs)
          show ?thesis
            using s q v step [OF j r]
            by (simp add: OBSTACLE_getOcs2Jacobian)
        qed
      qed
    qed
  qed
  moreover have "A = B" if "?R n A B" for A B :: "'a MatX"
  proof -
    have "take (length (columns A)) (columns A) = take (length (columns B)) (columns B)"
      using that by (simp add: cols_def)
    then have "columns A = columns B" by simp
    then show ?thesis using that by simp
  qed
  ultimately show ?thesis
    by (cases "for_loop 0 n ?b1 M1"; cases "for_loop 0 n ?b2 M2") simp_all
qed

lemma System_getOcs2Jacobian_uninit:
  "System_getOcs2Jacobian uninit1 this state Jq_pin Jv_pin =
   System_getOcs2Jacobian uninit2 this state Jq_pin Jv_pin"
proof -
  let ?rx = "dim_x (robot (dims this))" and ?ru = "dim_u (robot (dims this))"
  let ?n = "dim_o (dims this)" and ?r = "rows Jq_pin"
  let ?X = "\<lambda>u. MatXs u ?r (opt_x (dims this))" and ?U = "\<lambda>u. MatXs u ?r (opt_u (dims this))"
  let ?b = "\<lambda>u i dfdx. do {
             x_obs \<leftarrow> segment state (?rx + i * 9) 9;
             Jq_pin_obs \<leftarrow> middleCols Jq_pin (dim_q (robot (dims this)) + i * 3) 3;
             Jv_pin_obs \<leftarrow> middleCols Jv_pin (dim_v (robot (dims this)) + i * 3) 3;
             (dfdx_obs, ignore) \<leftarrow>
               getOcs2Jacobian (OBSTACLE_PINOCCHIO_MAPPING u) x_obs Jq_pin_obs Jv_pin_obs;
             set_middleCols dfdx (?rx + i * 9) 9 dfdx_obs }"
  let ?G = "\<lambda>u A B. do {
        dfdx \<leftarrow> set_leftCols (?X u) ?rx A;
        dfdu \<leftarrow> set_leftCols (?U u) ?ru B;
        dfdx \<leftarrow> for_loop 0 ?n (?b u) dfdx;
        Some (dfdx, dfdu) }"
  have G: "?G uninit1 A B = ?G uninit2 A B" for A B
  proof (cases "rows A = ?r \<and> cols A = ?rx \<and> rows B = ?r \<and> cols B = ?ru")
    case False
    show ?thesis
    proof (cases "rows A = ?r \<and> cols A = ?rx")
      case A: False
      then have "set_leftCols (?X u) ?rx A = None" for u
        by (auto simp add: set_leftCols_def set_middleCols_def MatXs_def)
      then show ?thesis by simp
    next
      case A: True
      then have x: "set_leftCols (?X u) ?rx A =
          Some \<lparr>rows = ?r, columns = columns A @ drop ?rx (columns (?X u))\<rparr>" for u
        by (simp add: set_leftCols_def set_middleCols_def MatXs_def cols_def opt_x_def)
      have "set_leftCols (?U u) ?ru B = None" for u
        using False A by (auto simp add: set_leftCols_def set_middleCols_def MatXs_def)
      then show ?thesis by (simp add: x)
    qed
  next
    case True
    let ?M = "\<lambda>u. \<lparr>rows = ?r, columns = columns A @ drop ?rx (columns (?X u))\<rparr>"
    have x: "set_leftCols (?X u) ?rx A = Some (?M u)" for u
      using True by (simp add: set_leftCols_def set_middleCols_def MatXs_def cols_def opt_x_def)
    have u: "set_leftCols (?U u) ?ru B = Some \<lparr>rows = ?r, columns = columns B\<rparr>" for u
      using True by (simp add: set_leftCols_def set_middleCols_def MatXs_def cols_def opt_u_def)
    have m: "rows (?M uninit1) = rows (?M uninit2)" "cols (?M uninit1) = ?rx + ?n * 9"
      "cols (?M uninit2) = ?rx + ?n * 9"
      "take ?rx (columns (?M uninit1)) = take ?rx (columns (?M uninit2))"
      using True by (simp_all add: cols_def MatXs_def opt_x_def)
    show ?thesis
      by (simp add: x u obstacle_loop_uninit [OF m, of state Jq_pin _ Jv_pin _ uninit1 uninit2])
  qed
  show ?thesis
    unfolding System_getOcs2Jacobian_def System_getOcs2Jacobian_alloc_def Let_def
    by (simp add: G)
qed

text \<open>
  C7, as amended: the first step of the system mapping's \<^verbatim>\<open>getOcs2Jacobian\<close> allocates \<open>dfdx\<close>
  with shape \<open>(rows, x())\<close> and \<open>dfdu\<close> with shape \<open>(rows, u())\<close> and leaves their contents
  indeterminate. Every entry of both is assigned by the robot block or by an obstacle block
  before the function returns, so that the result does not depend on those contents: it is
  the result that zero-initialised matrices give.
\<close>

theorem system_getOcs2Jacobian_alloc_overwritten:
  "rows (fst (System_getOcs2Jacobian_alloc uninit this Jq_pin)) = rows Jq_pin
   \<and> cols (fst (System_getOcs2Jacobian_alloc uninit this Jq_pin)) = opt_x (dims this)
   \<and> rows (snd (System_getOcs2Jacobian_alloc uninit this Jq_pin)) = rows Jq_pin
   \<and> cols (snd (System_getOcs2Jacobian_alloc uninit this Jq_pin)) = opt_u (dims this)
   \<and> System_getOcs2Jacobian uninit this state Jq_pin Jv_pin =
     System_getOcs2Jacobian (\<lambda>i j. 0) this state Jq_pin Jv_pin"
  using System_getOcs2Jacobian_uninit [of uninit this state Jq_pin Jv_pin "\<lambda>i j. 0"]
  by (simp add: System_getOcs2Jacobian_alloc_def Let_def MatXs_def cols_def)

text \<open>
  C7, as stated, fails: the matrices that the first step allocates are not zero-initialised.
  With storage that holds the value 7, rows \<open>1\<close>, \<open>x() = 3\<close> and \<open>u() = 1\<close>, every entry of both
  matrices is 7 after the first step.
\<close>

theorem system_getOcs2Jacobian_alloc_not_zero:
  "System_getOcs2Jacobian_alloc example_uninit (example_system 0) \<lparr>rows = 1, columns = [[1]]\<rparr> =
     (\<lparr>rows = 1, columns = [[7], [7], [7]]\<rparr>, \<lparr>rows = 1, columns = [[7]]\<rparr>)
   \<and> System_getOcs2Jacobian_alloc example_uninit (example_system 0) \<lparr>rows = 1, columns = [[1]]\<rparr> \<noteq>
     (MatXs_Zero 1 (opt_x (dims (example_system 0))), MatXs_Zero 1 (opt_u (dims (example_system 0))))"
  by (simp add: System_getOcs2Jacobian_alloc_def Let_def example_system_simps opt_x_def opt_u_def
      MatXs_def MatXs_Zero_def example_uninit_def upt_rec)

lemma length_swap_blocks: "length (swap_blocks base w i j v) = length v"
  by (simp add: swap_blocks_def)

lemma take_swap_blocks: "take base (swap_blocks base w i j v) = take base v"
  by (rule nth_equalityI) (simp_all add: swap_blocks_def)

lemma swap_blocks_nth:
  "k < length v \<Longrightarrow>
     swap_blocks base w i j v ! k =
       (if base + i * w \<le> k \<and> k < base + i * w + w then v ! (k - i * w + j * w)
        else if base + j * w \<le> k \<and> k < base + j * w + w then v ! (k - j * w + i * w)
        else v ! k)"
  by (simp add: swap_blocks_def)

lemma nth_assembled:
  assumes "\<And>a. a < n \<Longrightarrow> length (f a) = w" and "a < n" and "b < w"
  shows "(r @ concat (map f [0..<n])) ! (length r + a * w + b) = f a ! b"
proof -
  have len: "length (concat (map f [0..<n])) = n * w"
    using assms(1) by (rule concat_blocks_length)
  have "Suc a * w \<le> n * w" using assms(2) by (intro mult_le_mono1) simp
  then have le: "a * w + b < n * w" using assms(3) by simp
  have le2: "a * w \<le> n * w" using assms(2) by (intro mult_le_mono1) simp
  have "f a ! b = take w (drop (length r + a * w) (r @ concat (map f [0..<n]))) ! b"
    using block_of_assembled [where r = r, OF assms(1,2)] by simp
  also have "\<dots> = (r @ concat (map f [0..<n])) ! (length r + a * w + b)"
    using assms(3) le le2 len by (simp add: nth_append)
  finally show ?thesis by simp
qed

lemma block_of_swapped_state:
  assumes "rx + n * 9 \<le> length state" and "i < n" and "j < n" and "a < n"
  shows "take 9 (drop (rx + a * 9) (swap_blocks rx 9 i j state)) =
         take 9 (drop (rx + (if a = i then j else if a = j then i else a) * 9) state)"
proof (rule nth_equalityI)
  show "length (take 9 (drop (rx + a * 9) (swap_blocks rx 9 i j state))) =
        length (take 9 (drop (rx + (if a = i then j else if a = j then i else a) * 9) state))"
    using assms by (simp add: length_swap_blocks)
next
  fix k
  assume "k < length (take 9 (drop (rx + a * 9) (swap_blocks rx 9 i j state)))"
  then have k: "k < 9" by simp
  have b: "rx + a * 9 + k < length state" "rx + i * 9 + k < length state" "rx + j * 9 + k < length state"
    using assms k by simp_all
  have "take 9 (drop (rx + a * 9) (swap_blocks rx 9 i j state)) ! k =
        swap_blocks rx 9 i j state ! (rx + a * 9 + k)"
    using k b by (simp add: length_swap_blocks)
  also have "\<dots> = state ! (rx + (if a = i then j else if a = j then i else a) * 9 + k)"
  proof -
    let ?K = "rx + a * 9 + k"
    let ?Ci = "rx + i * 9 \<le> ?K \<and> ?K < rx + i * 9 + 9"
    let ?Cj = "rx + j * 9 \<le> ?K \<and> ?K < rx + j * 9 + 9"
    have ci: "?Ci \<longleftrightarrow> a = i" using k by arith
    have cj: "?Cj \<longleftrightarrow> a = j" using k by arith
    have nth: "swap_blocks rx 9 i j state ! ?K =
        (if ?Ci then state ! (?K - i * 9 + j * 9)
         else if ?Cj then state ! (?K - j * 9 + i * 9) else state ! ?K)"
      by (rule swap_blocks_nth) (rule b(1))
    consider (i) "a = i" | (j) "a \<noteq> i" "a = j" | (other) "a \<noteq> i" "a \<noteq> j" by blast
    then show ?thesis
    proof cases
      case i
      then have "?Ci" using ci by blast
      then have "swap_blocks rx 9 i j state ! ?K = state ! (?K - i * 9 + j * 9)"
        unfolding nth by (rule if_P)
      moreover have "?K - i * 9 + j * 9 = rx + j * 9 + k" using i by simp
      ultimately show ?thesis using i by (simp add: ac_simps)
    next
      case j
      then have "\<not> ?Ci" "?Cj" using ci cj by blast+
      then have "swap_blocks rx 9 i j state ! ?K = state ! (?K - j * 9 + i * 9)"
        unfolding nth by (simp only: if_P if_not_P if_False if_True)
      moreover have "?K - j * 9 + i * 9 = rx + i * 9 + k" using j by simp
      ultimately show ?thesis using j by (simp add: ac_simps)
    next
      case other
      then have "\<not> ?Ci" "\<not> ?Cj" using ci cj by blast+
      then have "swap_blocks rx 9 i j state ! ?K = state ! ?K"
        unfolding nth by (simp only: if_not_P if_False)
      then show ?thesis using other by simp
    qed
  qed
  also have "\<dots> = take 9 (drop (rx + (if a = i then j else if a = j then i else a) * 9) state) ! k"
    using k b by simp
  finally show "take 9 (drop (rx + a * 9) (swap_blocks rx 9 i j state)) ! k =
        take 9 (drop (rx + (if a = i then j else if a = j then i else a) * 9) state) ! k" .
qed

lemma swap_blocks_assembled:
  assumes "\<And>a. a < n \<Longrightarrow> length (f a) = 3" and "i < n" and "j < n"
  shows "swap_blocks (length r) 3 i j (r @ concat (map f [0..<n])) =
         r @ concat (map (\<lambda>a. f (if a = i then j else if a = j then i else a)) [0..<n])"
    (is "swap_blocks _ _ _ _ ?v = r @ concat (map ?g [0..<n])")
proof (rule nth_equalityI)
  have lf: "length (concat (map f [0..<n])) = n * 3"
    using assms(1) by (rule concat_blocks_length)
  have lg: "length (concat (map ?g [0..<n])) = n * 3"
    by (rule concat_blocks_length) (use assms in auto)
  show "length (swap_blocks (length r) 3 i j ?v) = length (r @ concat (map ?g [0..<n]))"
    using lf lg by (simp add: length_swap_blocks)
  fix k
  assume "k < length (swap_blocks (length r) 3 i j ?v)"
  then have k: "k < length r + n * 3" using lf by (simp add: length_swap_blocks)
  have kv: "k < length ?v" using k lf by simp
  show "swap_blocks (length r) 3 i j ?v ! k = (r @ concat (map ?g [0..<n])) ! k"
  proof (cases "k < length r")
    case True
    then show ?thesis using kv by (simp add: swap_blocks_def nth_append)
  next
    case False
    define a where "a = (k - length r) div 3"
    define b where "b = (k - length r) mod 3"
    have ab: "k = length r + a * 3 + b" "b < 3"
      using False by (simp_all add: a_def b_def)
    have an: "a < n" using False k unfolding a_def by arith
    have gl: "length (?g c) = 3" if "c < n" for c using that assms by auto
    have rhs: "(r @ concat (map ?g [0..<n])) ! k = ?g a ! b"
      unfolding ab(1) by (rule nth_assembled [where w = 3]) (use gl ab an in auto)
    have at: "?v ! (length r + c * 3 + b) = f c ! b" if "c < n" for c
      by (rule nth_assembled [where w = 3]) (use assms(1) that ab in auto)
    let ?Ci = "length r + i * 3 \<le> k \<and> k < length r + i * 3 + 3"
    let ?Cj = "length r + j * 3 \<le> k \<and> k < length r + j * 3 + 3"
    have ci: "?Ci \<longleftrightarrow> a = i" using ab by arith
    have cj: "?Cj \<longleftrightarrow> a = j" using ab by arith
    have nth: "swap_blocks (length r) 3 i j ?v ! k =
        (if ?Ci then ?v ! (k - i * 3 + j * 3)
         else if ?Cj then ?v ! (k - j * 3 + i * 3) else ?v ! k)"
      by (rule swap_blocks_nth) (rule kv)
    consider (i) "a = i" | (j) "a \<noteq> i" "a = j" | (other) "a \<noteq> i" "a \<noteq> j" by blast
    then have "swap_blocks (length r) 3 i j ?v ! k = ?g a ! b"
    proof cases
      case i
      then have "?Ci" using ci by blast
      then have "swap_blocks (length r) 3 i j ?v ! k = ?v ! (k - i * 3 + j * 3)"
        unfolding nth by (rule if_P)
      moreover have "k - i * 3 + j * 3 = length r + j * 3 + b" using i ab(1) by simp
      ultimately show ?thesis using i at [OF assms(3)] by simp
    next
      case j
      then have "\<not> ?Ci" "?Cj" using ci cj by blast+
      then have "swap_blocks (length r) 3 i j ?v ! k = ?v ! (k - j * 3 + i * 3)"
        unfolding nth by (simp only: if_P if_not_P if_False if_True)
      moreover have "k - j * 3 + i * 3 = length r + i * 3 + b" using j ab(1) by simp
      ultimately show ?thesis using j at [OF assms(2)] by simp
    next
      case other
      then have "\<not> ?Ci" "\<not> ?Cj" using ci cj by blast+
      then have "swap_blocks (length r) 3 i j ?v ! k = ?v ! k"
        unfolding nth by (simp only: if_not_P if_False)
      then show ?thesis using other at [OF an] ab(1) by simp
    qed
    then show ?thesis using rhs by simp
  qed
qed

lemma assembled_swap:
  assumes "rx + n * 9 \<le> length state" and "i < n" and "j < n"
    and "\<And>x. length x = 9 \<Longrightarrow> length (h x) = 3"
  shows "r @ concat (map (\<lambda>a. h (take 9 (drop (rx + a * 9) (swap_blocks rx 9 i j state)))) [0..<n]) =
         swap_blocks (length r) 3 i j
           (r @ concat (map (\<lambda>a. h (take 9 (drop (rx + a * 9) state))) [0..<n]))"
proof -
  let ?f = "\<lambda>a. h (take 9 (drop (rx + a * 9) state))"
  have len: "length (?f a) = 3" if "a < n" for a
  proof -
    have "rx + a * 9 + 9 \<le> length state" using that assms(1) by simp
    then have "length (take 9 (drop (rx + a * 9) state)) = 9" by simp
    then show ?thesis by (rule assms(4))
  qed
  have m: "map (\<lambda>a. h (take 9 (drop (rx + a * 9) (swap_blocks rx 9 i j state)))) [0..<n] =
        map (\<lambda>a. ?f (if a = i then j else if a = j then i else a)) [0..<n]"
    by (rule map_cong) (simp_all add: block_of_swapped_state [OF assms(1-3)])
  have s: "swap_blocks (length r) 3 i j (r @ concat (map ?f [0..<n])) =
        r @ concat (map (\<lambda>a. ?f (if a = i then j else if a = j then i else a)) [0..<n])"
    using len assms(2,3) by (rule swap_blocks_assembled)
  show ?thesis unfolding m s by (rule refl)
qed

lemma swapped_output:
  assumes "rx + n * 9 \<le> length state" and "i < n" and "j < n"
    and "\<And>x. length x = 9 \<Longrightarrow> length (h x) = 3"
    and "length r = rq"
  shows "\<exists>out. r @ concat (map (\<lambda>a. h (take 9 (drop (rx + a * 9) state))) [0..<n]) = out
         \<and> r @ concat (map (\<lambda>a. h (take 9 (drop (rx + a * 9) (swap_blocks rx 9 i j state)))) [0..<n]) =
             swap_blocks rq 3 i j out
         \<and> length out = rq + 3 * n
         \<and> length (swap_blocks rq 3 i j out) = rq + 3 * n
         \<and> head out rq = Some r
         \<and> head (swap_blocks rq 3 i j out) rq = Some r
         \<and> segment (swap_blocks rq 3 i j out) (rq + 3 * i) 3 = segment out (rq + 3 * j) 3
         \<and> segment (swap_blocks rq 3 i j out) (rq + 3 * j) 3 = segment out (rq + 3 * i) 3
         \<and> segment out (rq + 3 * i) 3 = Some (h (take 9 (drop (rx + i * 9) state)))
         \<and> segment out (rq + 3 * j) 3 = Some (h (take 9 (drop (rx + j * 9) state)))"
proof -
  let ?f = "\<lambda>a. h (take 9 (drop (rx + a * 9) state))"
  let ?p = "\<lambda>a. if a = i then j else if a = j then i else a"
  let ?out = "r @ concat (map ?f [0..<n])"
  let ?out' = "r @ concat (map (\<lambda>a. ?f (?p a)) [0..<n])"
  have len: "length (?f a) = 3" if "a < n" for a
  proof -
    have "rx + a * 9 + 9 \<le> length state" using that assms(1) by simp
    then have "length (take 9 (drop (rx + a * 9) state)) = 9" by simp
    then show ?thesis by (rule assms(4))
  qed
  have len': "length (?f (?p a)) = 3" if "a < n" for a
    using that assms(2,3) len by auto
  have sw: "r @ concat (map (\<lambda>a. h (take 9 (drop (rx + a * 9) (swap_blocks rx 9 i j state)))) [0..<n]) =
      swap_blocks rq 3 i j ?out"
    using assembled_swap [where r = r, OF assms(1-4)] assms(5) by simp
  have sw': "swap_blocks rq 3 i j ?out = ?out'"
    using swap_blocks_assembled [of n ?f i j r, OF len assms(2,3)] assms(5) by simp
  have lo: "length ?out = rq + 3 * n"
    using concat_blocks_length [of n ?f 3] len assms(5) by simp
  have lo': "length ?out' = rq + 3 * n"
    using concat_blocks_length [of n "\<lambda>a. ?f (?p a)" 3] len' assms(5) by simp
  have ho: "head ?out rq = Some r" and ho': "head ?out' rq = Some r"
    using assms(5) by (simp_all add: head_def)
  have seg: "segment ?out (rq + 3 * a) 3 = Some (?f a)" if "a < n" for a
  proof -
    have "take 3 (drop (length r + a * 3) ?out) = ?f a"
      by (rule block_of_assembled) (use len that in simp_all)
    moreover have "rq + 3 * a + 3 \<le> length ?out" using lo that by simp
    ultimately show ?thesis using assms(5) by (simp add: segment_def mult.commute)
  qed
  have seg': "segment ?out' (rq + 3 * a) 3 = Some (?f (?p a))" if "a < n" for a
  proof -
    have "take 3 (drop (length r + a * 3) ?out') = ?f (?p a)"
      by (rule block_of_assembled [where f = "\<lambda>a. ?f (?p a)"]) (use len' that in simp_all)
    moreover have "rq + 3 * a + 3 \<le> length ?out'" using lo' that by simp
    ultimately show ?thesis using assms(5) by (simp add: segment_def mult.commute)
  qed
  have si: "segment ?out' (rq + 3 * i) 3 = segment ?out (rq + 3 * j) 3"
    using seg' [OF assms(2)] seg [OF assms(3)] by simp
  have sj: "segment ?out' (rq + 3 * j) 3 = segment ?out (rq + 3 * i) 3"
    using seg' [OF assms(3)] seg [OF assms(2)] by simp
  show ?thesis
    unfolding sw sw'
    using sw' lo lo' ho ho' si sj seg [OF assms(2)] seg [OF assms(3)] by simp
qed

text \<open>
  C8: obstacles are interchangeable. For a state of length \<open>x()\<close>, an input of length \<open>u()\<close>,
  two different obstacle indices \<open>i\<close>, \<open>j\<close> below \<open>o\<close> and a robot mapping whose position,
  velocity and acceleration have the lengths \<open>robot.q\<close>, \<open>robot.v\<close>, \<open>robot.v\<close>, each of the
  three operations returns a vector of length \<open>q()\<close> resp. \<open>v()\<close> on the state and on the state
  with the blocks of nine entries of the obstacles \<open>i\<close> and \<open>j\<close> exchanged, and the second
  result is the first with the blocks of three entries of the obstacles \<open>i\<close> and \<open>j\<close>
  exchanged: its block \<open>i\<close> is the obstacle mapping's result for the state slice of obstacle
  \<open>j\<close>, its block \<open>j\<close> the one for the state slice of obstacle \<open>i\<close>, and its first
  \<open>robot.q\<close> resp. \<open>robot.v\<close> entries are the robot's result, as in the first.
\<close>

theorem system_obstacles_interchangeable:
  assumes "length state = opt_x (dims this)"
    and "length input = opt_u (dims this)"
    and "i < dim_o (dims this)"
    and "j < dim_o (dims this)"
    and "i \<noteq> j"
    and "head state (dim_x (robot (dims this))) = Some x_robot"
    and "head input (dim_u (robot (dims this))) = Some u_robot"
    and "getPinocchioJointPosition (robot_mapping this) x_robot = Some q_robot"
    and "length q_robot = dim_q (robot (dims this))"
    and "getPinocchioJointVelocity (robot_mapping this) x_robot u_robot = Some v_robot"
    and "length v_robot = dim_v (robot (dims this))"
    and "getPinocchioJointAcceleration (robot_mapping this) x_robot u_robot = Some a_robot"
    and "length a_robot = dim_v (robot (dims this))"
  shows "\<exists>q_pin v_pin a_pin x_i x_j.
           segment state (dim_x (robot (dims this)) + 9 * i) 9 = Some x_i
         \<and> segment state (dim_x (robot (dims this)) + 9 * j) 9 = Some x_j
         \<and> System_getPinocchioJointPosition uninit this state = Some q_pin
         \<and> length q_pin = opt_q (dims this)
         \<and> System_getPinocchioJointPosition uninit this (swap_blocks (dim_x (robot (dims this))) 9 i j state) =
               Some (swap_blocks (dim_q (robot (dims this))) 3 i j q_pin)
         \<and> length (swap_blocks (dim_q (robot (dims this))) 3 i j q_pin) = opt_q (dims this)
         \<and> head q_pin (dim_q (robot (dims this))) = Some q_robot
         \<and> head (swap_blocks (dim_q (robot (dims this))) 3 i j q_pin) (dim_q (robot (dims this))) =
               Some q_robot
         \<and> segment q_pin (dim_q (robot (dims this)) + 3 * i) 3 =
               getPinocchioJointPosition (OBSTACLE_PINOCCHIO_MAPPING uninit) x_i
         \<and> segment q_pin (dim_q (robot (dims this)) + 3 * j) 3 =
               getPinocchioJointPosition (OBSTACLE_PINOCCHIO_MAPPING uninit) x_j
         \<and> segment (swap_blocks (dim_q (robot (dims this))) 3 i j q_pin) (dim_q (robot (dims this)) + 3 * i) 3 =
               getPinocchioJointPosition (OBSTACLE_PINOCCHIO_MAPPING uninit) x_j
         \<and> segment (swap_blocks (dim_q (robot (dims this))) 3 i j q_pin) (dim_q (robot (dims this)) + 3 * j) 3 =
               getPinocchioJointPosition (OBSTACLE_PINOCCHIO_MAPPING uninit) x_i
         \<and> System_getPinocchioJointVelocity uninit this state input = Some v_pin
         \<and> length v_pin = opt_v (dims this)
         \<and> System_getPinocchioJointVelocity uninit this (swap_blocks (dim_x (robot (dims this))) 9 i j state) input =
               Some (swap_blocks (dim_v (robot (dims this))) 3 i j v_pin)
         \<and> length (swap_blocks (dim_v (robot (dims this))) 3 i j v_pin) = opt_v (dims this)
         \<and> head v_pin (dim_v (robot (dims this))) = Some v_robot
         \<and> head (swap_blocks (dim_v (robot (dims this))) 3 i j v_pin) (dim_v (robot (dims this))) =
               Some v_robot
         \<and> segment v_pin (dim_v (robot (dims this)) + 3 * i) 3 =
               getPinocchioJointVelocity (OBSTACLE_PINOCCHIO_MAPPING uninit) x_i (VecXs_Zero 3)
         \<and> segment v_pin (dim_v (robot (dims this)) + 3 * j) 3 =
               getPinocchioJointVelocity (OBSTACLE_PINOCCHIO_MAPPING uninit) x_j (VecXs_Zero 3)
         \<and> segment (swap_blocks (dim_v (robot (dims this))) 3 i j v_pin) (dim_v (robot (dims this)) + 3 * i) 3 =
               getPinocchioJointVelocity (OBSTACLE_PINOCCHIO_MAPPING uninit) x_j (VecXs_Zero 3)
         \<and> segment (swap_blocks (dim_v (robot (dims this))) 3 i j v_pin) (dim_v (robot (dims this)) + 3 * j) 3 =
               getPinocchioJointVelocity (OBSTACLE_PINOCCHIO_MAPPING uninit) x_i (VecXs_Zero 3)
         \<and> System_getPinocchioJointAcceleration uninit this state input = Some a_pin
         \<and> length a_pin = opt_v (dims this)
         \<and> System_getPinocchioJointAcceleration uninit this (swap_blocks (dim_x (robot (dims this))) 9 i j state) input =
               Some (swap_blocks (dim_v (robot (dims this))) 3 i j a_pin)
         \<and> length (swap_blocks (dim_v (robot (dims this))) 3 i j a_pin) = opt_v (dims this)
         \<and> head a_pin (dim_v (robot (dims this))) = Some a_robot
         \<and> head (swap_blocks (dim_v (robot (dims this))) 3 i j a_pin) (dim_v (robot (dims this))) =
               Some a_robot
         \<and> segment a_pin (dim_v (robot (dims this)) + 3 * i) 3 =
               getPinocchioJointAcceleration (OBSTACLE_PINOCCHIO_MAPPING uninit) x_i (VecXs_Zero 3)
         \<and> segment a_pin (dim_v (robot (dims this)) + 3 * j) 3 =
               getPinocchioJointAcceleration (OBSTACLE_PINOCCHIO_MAPPING uninit) x_j (VecXs_Zero 3)
         \<and> segment (swap_blocks (dim_v (robot (dims this))) 3 i j a_pin) (dim_v (robot (dims this)) + 3 * i) 3 =
               getPinocchioJointAcceleration (OBSTACLE_PINOCCHIO_MAPPING uninit) x_j (VecXs_Zero 3)
         \<and> segment (swap_blocks (dim_v (robot (dims this))) 3 i j a_pin) (dim_v (robot (dims this)) + 3 * j) 3 =
               getPinocchioJointAcceleration (OBSTACLE_PINOCCHIO_MAPPING uninit) x_i (VecXs_Zero 3)"
proof -
  let ?rx = "dim_x (robot (dims this))" and ?n = "dim_o (dims this)"
  let ?S = "swap_blocks ?rx 9 i j state"
  let ?xi = "take 9 (drop (?rx + i * 9) state)" and ?xj = "take 9 (drop (?rx + j * 9) state)"
  have bound: "?rx + ?n * 9 \<le> length state" using assms(1) by (simp add: opt_x_def)
  have sz: "opt_x (dims this) \<le> length state" "opt_x (dims this) \<le> length ?S"
    "dim_u (robot (dims this)) \<le> length input"
    using assms(1,2) by (simp_all add: length_swap_blocks opt_u_def)
  have t: "take ?rx ?S = take ?rx state" by (rule take_swap_blocks)
  have xr: "take ?rx state = x_robot" and ur: "take (dim_u (robot (dims this))) input = u_robot"
    using assms(6,7) by (auto simp add: head_def split: if_splits)
  have bi: "?rx + i * 9 + 9 \<le> length state" and bj: "?rx + j * 9 + 9 \<le> length state"
    using bound assms(3,4) by simp_all
  have si: "segment state (?rx + 9 * i) 9 = Some ?xi" and sj: "segment state (?rx + 9 * j) 9 =
               Some ?xj"
    using bi bj by (simp_all add: segment_def mult.commute)
  have li: "length ?xi = 9" and lj: "length ?xj = 9" using bi bj by simp_all
  have op: "getPinocchioJointPosition (OBSTACLE_PINOCCHIO_MAPPING uninit) x = Some (take 3 x)"
    and ov: "getPinocchioJointVelocity (OBSTACLE_PINOCCHIO_MAPPING uninit) x (VecXs_Zero 3) =
               Some (take 3 (drop 3 x))"
    and oa: "getPinocchioJointAcceleration (OBSTACLE_PINOCCHIO_MAPPING uninit) x (VecXs_Zero 3) =
               Some (drop 6 x)"
    if "length x = 9" for x :: "'a list"
    using that
    by (simp_all add: OBSTACLE_getPinocchioJointPosition OBSTACLE_getPinocchioJointVelocity
        OBSTACLE_getPinocchioJointAcceleration head_def segment_def tail_def)
  obtain q_pin where q:
    "q_robot @ concat (map (\<lambda>a. (take 3) (take 9 (drop (?rx + a * 9) state))) [0..<?n]) =
               q_pin"
    "q_robot @ concat (map (\<lambda>a. (take 3) (take 9 (drop (?rx + a * 9) ?S))) [0..<?n]) =
       swap_blocks (dim_q (robot (dims this))) 3 i j q_pin"
    "length q_pin = dim_q (robot (dims this)) + 3 * ?n"
    "length (swap_blocks (dim_q (robot (dims this))) 3 i j q_pin) =
               dim_q (robot (dims this)) + 3 * ?n"
    "head q_pin (dim_q (robot (dims this))) = Some q_robot"
    "head (swap_blocks (dim_q (robot (dims this))) 3 i j q_pin) (dim_q (robot (dims this))) =
               Some q_robot"
    "segment (swap_blocks (dim_q (robot (dims this))) 3 i j q_pin) (dim_q (robot (dims this)) + 3 * i) 3 =
               segment q_pin (dim_q (robot (dims this)) + 3 * j) 3"
    "segment (swap_blocks (dim_q (robot (dims this))) 3 i j q_pin) (dim_q (robot (dims this)) + 3 * j) 3 =
               segment q_pin (dim_q (robot (dims this)) + 3 * i) 3"
    "segment q_pin (dim_q (robot (dims this)) + 3 * i) 3 = Some ((take 3) ?xi)"
    "segment q_pin (dim_q (robot (dims this)) + 3 * j) 3 = Some ((take 3) ?xj)"
    using swapped_output [where h = "take 3" and r = q_robot and rq = "dim_q (robot (dims this))",
        OF bound assms(3,4) _ assms(9)]
    by auto
  have q1: "System_getPinocchioJointPosition uninit this state = Some q_pin"
    using assms(8,9) q(1) by (simp add: System_getPinocchioJointPosition_eq [OF sz(1)] xr ur)
  have q2: "System_getPinocchioJointPosition uninit this ?S =
      Some (swap_blocks (dim_q (robot (dims this))) 3 i j q_pin)"
    using assms(8,9) q(2)
    by (simp add: System_getPinocchioJointPosition_eq [OF sz(2)] t xr ur)
  have q3: "length q_pin = opt_q (dims this)"
    "length (swap_blocks (dim_q (robot (dims this))) 3 i j q_pin) = opt_q (dims this)"
    using q(3,4) by (simp_all add: opt_q_def)
  have q4: "segment q_pin (dim_q (robot (dims this)) + 3 * i) 3 =
               getPinocchioJointPosition (OBSTACLE_PINOCCHIO_MAPPING uninit) ?xi"
    "segment q_pin (dim_q (robot (dims this)) + 3 * j) 3 =
               getPinocchioJointPosition (OBSTACLE_PINOCCHIO_MAPPING uninit) ?xj"
    "segment (swap_blocks (dim_q (robot (dims this))) 3 i j q_pin) (dim_q (robot (dims this)) + 3 * i) 3 =
               getPinocchioJointPosition (OBSTACLE_PINOCCHIO_MAPPING uninit) ?xj"
    "segment (swap_blocks (dim_q (robot (dims this))) 3 i j q_pin) (dim_q (robot (dims this)) + 3 * j) 3 =
               getPinocchioJointPosition (OBSTACLE_PINOCCHIO_MAPPING uninit) ?xi"
    using q(7-10) op [OF li] op [OF lj] by simp_all
  obtain v_pin where v:
    "v_robot @ concat (map (\<lambda>a. (\<lambda>x. take 3 (drop 3 x)) (take 9 (drop (?rx + a * 9) state))) [0..<?n]) =
               v_pin"
    "v_robot @ concat (map (\<lambda>a. (\<lambda>x. take 3 (drop 3 x)) (take 9 (drop (?rx + a * 9) ?S))) [0..<?n]) =
       swap_blocks (dim_v (robot (dims this))) 3 i j v_pin"
    "length v_pin = dim_v (robot (dims this)) + 3 * ?n"
    "length (swap_blocks (dim_v (robot (dims this))) 3 i j v_pin) =
               dim_v (robot (dims this)) + 3 * ?n"
    "head v_pin (dim_v (robot (dims this))) = Some v_robot"
    "head (swap_blocks (dim_v (robot (dims this))) 3 i j v_pin) (dim_v (robot (dims this))) =
               Some v_robot"
    "segment (swap_blocks (dim_v (robot (dims this))) 3 i j v_pin) (dim_v (robot (dims this)) + 3 * i) 3 =
               segment v_pin (dim_v (robot (dims this)) + 3 * j) 3"
    "segment (swap_blocks (dim_v (robot (dims this))) 3 i j v_pin) (dim_v (robot (dims this)) + 3 * j) 3 =
               segment v_pin (dim_v (robot (dims this)) + 3 * i) 3"
    "segment v_pin (dim_v (robot (dims this)) + 3 * i) 3 =
               Some ((\<lambda>x. take 3 (drop 3 x)) ?xi)"
    "segment v_pin (dim_v (robot (dims this)) + 3 * j) 3 =
               Some ((\<lambda>x. take 3 (drop 3 x)) ?xj)"
    using swapped_output [where h = "\<lambda>x. take 3 (drop 3 x)" and r = v_robot and rq =
               "dim_v (robot (dims this))",
        OF bound assms(3,4) _ assms(11)]
    by auto
  have v1: "System_getPinocchioJointVelocity uninit this state input = Some v_pin"
    using assms(10,11) v(1) by (simp add: System_getPinocchioJointVelocity_eq [OF sz(1,3)] xr ur)
  have v2: "System_getPinocchioJointVelocity uninit this ?S input =
      Some (swap_blocks (dim_v (robot (dims this))) 3 i j v_pin)"
    using assms(10,11) v(2)
    by (simp add: System_getPinocchioJointVelocity_eq [OF sz(2,3)] t xr ur)
  have v3: "length v_pin = opt_v (dims this)"
    "length (swap_blocks (dim_v (robot (dims this))) 3 i j v_pin) = opt_v (dims this)"
    using v(3,4) by (simp_all add: opt_v_def)
  have v4: "segment v_pin (dim_v (robot (dims this)) + 3 * i) 3 =
               getPinocchioJointVelocity (OBSTACLE_PINOCCHIO_MAPPING uninit) ?xi (VecXs_Zero 3)"
    "segment v_pin (dim_v (robot (dims this)) + 3 * j) 3 =
               getPinocchioJointVelocity (OBSTACLE_PINOCCHIO_MAPPING uninit) ?xj (VecXs_Zero 3)"
    "segment (swap_blocks (dim_v (robot (dims this))) 3 i j v_pin) (dim_v (robot (dims this)) + 3 * i) 3 =
               getPinocchioJointVelocity (OBSTACLE_PINOCCHIO_MAPPING uninit) ?xj (VecXs_Zero 3)"
    "segment (swap_blocks (dim_v (robot (dims this))) 3 i j v_pin) (dim_v (robot (dims this)) + 3 * j) 3 =
               getPinocchioJointVelocity (OBSTACLE_PINOCCHIO_MAPPING uninit) ?xi (VecXs_Zero 3)"
    using v(7-10) ov [OF li] ov [OF lj] by simp_all
  obtain a_pin where a:
    "a_robot @ concat (map (\<lambda>a. (drop 6) (take 9 (drop (?rx + a * 9) state))) [0..<?n]) =
               a_pin"
    "a_robot @ concat (map (\<lambda>a. (drop 6) (take 9 (drop (?rx + a * 9) ?S))) [0..<?n]) =
       swap_blocks (dim_v (robot (dims this))) 3 i j a_pin"
    "length a_pin = dim_v (robot (dims this)) + 3 * ?n"
    "length (swap_blocks (dim_v (robot (dims this))) 3 i j a_pin) =
               dim_v (robot (dims this)) + 3 * ?n"
    "head a_pin (dim_v (robot (dims this))) = Some a_robot"
    "head (swap_blocks (dim_v (robot (dims this))) 3 i j a_pin) (dim_v (robot (dims this))) =
               Some a_robot"
    "segment (swap_blocks (dim_v (robot (dims this))) 3 i j a_pin) (dim_v (robot (dims this)) + 3 * i) 3 =
               segment a_pin (dim_v (robot (dims this)) + 3 * j) 3"
    "segment (swap_blocks (dim_v (robot (dims this))) 3 i j a_pin) (dim_v (robot (dims this)) + 3 * j) 3 =
               segment a_pin (dim_v (robot (dims this)) + 3 * i) 3"
    "segment a_pin (dim_v (robot (dims this)) + 3 * i) 3 = Some ((drop 6) ?xi)"
    "segment a_pin (dim_v (robot (dims this)) + 3 * j) 3 = Some ((drop 6) ?xj)"
    using swapped_output [where h = "drop 6" and r = a_robot and rq = "dim_v (robot (dims this))",
        OF bound assms(3,4) _ assms(13)]
    by auto
  have a1: "System_getPinocchioJointAcceleration uninit this state input = Some a_pin"
    using assms(12,13) a(1) by (simp add: System_getPinocchioJointAcceleration_eq [OF sz(1,3)] xr ur)
  have a2: "System_getPinocchioJointAcceleration uninit this ?S input =
      Some (swap_blocks (dim_v (robot (dims this))) 3 i j a_pin)"
    using assms(12,13) a(2)
    by (simp add: System_getPinocchioJointAcceleration_eq [OF sz(2,3)] t xr ur)
  have a3: "length a_pin = opt_v (dims this)"
    "length (swap_blocks (dim_v (robot (dims this))) 3 i j a_pin) = opt_v (dims this)"
    using a(3,4) by (simp_all add: opt_v_def)
  have a4: "segment a_pin (dim_v (robot (dims this)) + 3 * i) 3 =
               getPinocchioJointAcceleration (OBSTACLE_PINOCCHIO_MAPPING uninit) ?xi (VecXs_Zero 3)"
    "segment a_pin (dim_v (robot (dims this)) + 3 * j) 3 =
               getPinocchioJointAcceleration (OBSTACLE_PINOCCHIO_MAPPING uninit) ?xj (VecXs_Zero 3)"
    "segment (swap_blocks (dim_v (robot (dims this))) 3 i j a_pin) (dim_v (robot (dims this)) + 3 * i) 3 =
               getPinocchioJointAcceleration (OBSTACLE_PINOCCHIO_MAPPING uninit) ?xj (VecXs_Zero 3)"
    "segment (swap_blocks (dim_v (robot (dims this))) 3 i j a_pin) (dim_v (robot (dims this)) + 3 * j) 3 =
               getPinocchioJointAcceleration (OBSTACLE_PINOCCHIO_MAPPING uninit) ?xi (VecXs_Zero 3)"
    using a(7-10) oa [OF li] oa [OF lj] by simp_all
  show ?thesis
    using si sj q1 q2 q3 q(5,6) q4 v1 v2 v3 v(5,6) v4 a1 a2 a3 a(5,6) a4 by blast
qed

theorem system_obstacles_interchangeable_witness:
  "\<exists>q_pin v_pin a_pin x_i x_j.
           segment example_state (dim_x (robot (dims (example_system 2))) + 9 * 0) 9 = Some x_i
         \<and> segment example_state (dim_x (robot (dims (example_system 2))) + 9 * 1) 9 = Some x_j
         \<and> System_getPinocchioJointPosition example_uninit (example_system 2) example_state = Some q_pin
         \<and> length q_pin = opt_q (dims (example_system 2))
         \<and> System_getPinocchioJointPosition example_uninit (example_system 2) (swap_blocks (dim_x (robot (dims (example_system 2)))) 9 0 1 example_state) =
               Some (swap_blocks (dim_q (robot (dims (example_system 2)))) 3 0 1 q_pin)
         \<and> length (swap_blocks (dim_q (robot (dims (example_system 2)))) 3 0 1 q_pin) =
               opt_q (dims (example_system 2))
         \<and> head q_pin (dim_q (robot (dims (example_system 2)))) = Some [10]
         \<and> head (swap_blocks (dim_q (robot (dims (example_system 2)))) 3 0 1 q_pin) (dim_q (robot (dims (example_system 2)))) =
               Some [10]
         \<and> segment q_pin (dim_q (robot (dims (example_system 2))) + 3 * 0) 3 =
               getPinocchioJointPosition (OBSTACLE_PINOCCHIO_MAPPING example_uninit) x_i
         \<and> segment q_pin (dim_q (robot (dims (example_system 2))) + 3 * 1) 3 =
               getPinocchioJointPosition (OBSTACLE_PINOCCHIO_MAPPING example_uninit) x_j
         \<and> segment (swap_blocks (dim_q (robot (dims (example_system 2)))) 3 0 1 q_pin) (dim_q (robot (dims (example_system 2))) + 3 * 0) 3 =
               getPinocchioJointPosition (OBSTACLE_PINOCCHIO_MAPPING example_uninit) x_j
         \<and> segment (swap_blocks (dim_q (robot (dims (example_system 2)))) 3 0 1 q_pin) (dim_q (robot (dims (example_system 2))) + 3 * 1) 3 =
               getPinocchioJointPosition (OBSTACLE_PINOCCHIO_MAPPING example_uninit) x_i
         \<and> System_getPinocchioJointVelocity example_uninit (example_system 2) example_state [5] = Some v_pin
         \<and> length v_pin = opt_v (dims (example_system 2))
         \<and> System_getPinocchioJointVelocity example_uninit (example_system 2) (swap_blocks (dim_x (robot (dims (example_system 2)))) 9 0 1 example_state) [5] =
               Some (swap_blocks (dim_v (robot (dims (example_system 2)))) 3 0 1 v_pin)
         \<and> length (swap_blocks (dim_v (robot (dims (example_system 2)))) 3 0 1 v_pin) =
               opt_v (dims (example_system 2))
         \<and> head v_pin (dim_v (robot (dims (example_system 2)))) = Some [20]
         \<and> head (swap_blocks (dim_v (robot (dims (example_system 2)))) 3 0 1 v_pin) (dim_v (robot (dims (example_system 2)))) =
               Some [20]
         \<and> segment v_pin (dim_v (robot (dims (example_system 2))) + 3 * 0) 3 =
               getPinocchioJointVelocity (OBSTACLE_PINOCCHIO_MAPPING example_uninit) x_i (VecXs_Zero 3)
         \<and> segment v_pin (dim_v (robot (dims (example_system 2))) + 3 * 1) 3 =
               getPinocchioJointVelocity (OBSTACLE_PINOCCHIO_MAPPING example_uninit) x_j (VecXs_Zero 3)
         \<and> segment (swap_blocks (dim_v (robot (dims (example_system 2)))) 3 0 1 v_pin) (dim_v (robot (dims (example_system 2))) + 3 * 0) 3 =
               getPinocchioJointVelocity (OBSTACLE_PINOCCHIO_MAPPING example_uninit) x_j (VecXs_Zero 3)
         \<and> segment (swap_blocks (dim_v (robot (dims (example_system 2)))) 3 0 1 v_pin) (dim_v (robot (dims (example_system 2))) + 3 * 1) 3 =
               getPinocchioJointVelocity (OBSTACLE_PINOCCHIO_MAPPING example_uninit) x_i (VecXs_Zero 3)
         \<and> System_getPinocchioJointAcceleration example_uninit (example_system 2) example_state [5] =
               Some a_pin
         \<and> length a_pin = opt_v (dims (example_system 2))
         \<and> System_getPinocchioJointAcceleration example_uninit (example_system 2) (swap_blocks (dim_x (robot (dims (example_system 2)))) 9 0 1 example_state) [5] =
               Some (swap_blocks (dim_v (robot (dims (example_system 2)))) 3 0 1 a_pin)
         \<and> length (swap_blocks (dim_v (robot (dims (example_system 2)))) 3 0 1 a_pin) =
               opt_v (dims (example_system 2))
         \<and> head a_pin (dim_v (robot (dims (example_system 2)))) = Some [30]
         \<and> head (swap_blocks (dim_v (robot (dims (example_system 2)))) 3 0 1 a_pin) (dim_v (robot (dims (example_system 2)))) =
               Some [30]
         \<and> segment a_pin (dim_v (robot (dims (example_system 2))) + 3 * 0) 3 =
               getPinocchioJointAcceleration (OBSTACLE_PINOCCHIO_MAPPING example_uninit) x_i (VecXs_Zero 3)
         \<and> segment a_pin (dim_v (robot (dims (example_system 2))) + 3 * 1) 3 =
               getPinocchioJointAcceleration (OBSTACLE_PINOCCHIO_MAPPING example_uninit) x_j (VecXs_Zero 3)
         \<and> segment (swap_blocks (dim_v (robot (dims (example_system 2)))) 3 0 1 a_pin) (dim_v (robot (dims (example_system 2))) + 3 * 0) 3 =
               getPinocchioJointAcceleration (OBSTACLE_PINOCCHIO_MAPPING example_uninit) x_j (VecXs_Zero 3)
         \<and> segment (swap_blocks (dim_v (robot (dims (example_system 2)))) 3 0 1 a_pin) (dim_v (robot (dims (example_system 2))) + 3 * 1) 3 =
               getPinocchioJointAcceleration (OBSTACLE_PINOCCHIO_MAPPING example_uninit) x_i (VecXs_Zero 3)"
  by (rule system_obstacles_interchangeable [where x_robot = "[10, 20, 30]" and u_robot = "[5]"])
     (simp_all add: example_system_simps example_state_def opt_x_def opt_u_def head_def segment_def
        tail_def)

end
